theory Spec2Isabelle
  imports Main "HOL-Library.Monad_Syntax"
begin

section \<open>The daily cost report function (src/funcs/cost-report.lambda.ts)\<close>

text \<open>
  The theory embeds the Lambda handler of the cost reporter and the helpers it calls:
  \<^verbatim>\<open>dateFormatString\<close>, \<^verbatim>\<open>getDateRange\<close>, \<^verbatim>\<open>getTotalBilling\<close>, \<^verbatim>\<open>getServiceBilling\<close>,
  \<^verbatim>\<open>getAccountBillings\<close> and \<^verbatim>\<open>handler\<close>. JavaScript values that may be
  \<^verbatim>\<open>undefined\<close> are options, a rejected promise or a thrown exception is a value
  of its own, and the clients of Cost Explorer, Secrets Manager and Slack are functions
  from the request to its outcome.
\<close>

subsection \<open>JavaScript numbers and strings in templates\<close>

definition digitChar :: "nat \<Rightarrow> char" where
  "digitChar n = ''0123456789'' ! n"

text \<open>Number-to-string conversion of a non-negative integer: its decimal digits.\<close>

fun natToString :: "nat \<Rightarrow> string" where
  "natToString n =
     (if n < 10 then [digitChar n] else natToString (n div 10) @ [digitChar (n mod 10)])"

declare natToString.simps [simp del]

definition numToString :: "int \<Rightarrow> string" where
  "numToString i = (if i < 0 then ''-'' @ natToString (nat (- i)) else natToString (nat i))"

text \<open>\<^verbatim>\<open>s.slice(-2)\<close>: the last two characters, or all of a shorter string.\<close>

definition sliceLast2 :: "string \<Rightarrow> string" where
  "sliceLast2 s = drop (length s - 2) s"

text \<open>A template literal renders \<^verbatim>\<open>undefined\<close> as the word itself.\<close>

definition tmpl :: "string option \<Rightarrow> string" where
  "tmpl v = (case v of None \<Rightarrow> ''undefined'' | Some s \<Rightarrow> s)"

text \<open>Truthiness of an optional string: \<^verbatim>\<open>undefined\<close> and the empty string are falsy.\<close>

definition truthy :: "string option \<Rightarrow> bool" where
  "truthy v = (case v of None \<Rightarrow> False | Some s \<Rightarrow> s \<noteq> [])"

subsection \<open>The Date object, at the level of local calendar fields\<close>

text \<open>
  A \<^verbatim>\<open>Date\<close> is seen through \<^verbatim>\<open>getFullYear\<close>, \<^verbatim>\<open>getMonth\<close> (0 to 11) and
  \<^verbatim>\<open>getDate\<close> only, all three in local time, as is the constructor
  \<^verbatim>\<open>new Date(year, monthIndex, day)\<close>; the time of day and the offset of the zone
  play no part.
\<close>

record Date =
  getFullYear :: int
  getMonth :: int
  getDate :: int

definition isLeapYear :: "int \<Rightarrow> bool" where
  "isLeapYear y = (y mod 4 = 0 \<and> (y mod 100 \<noteq> 0 \<or> y mod 400 = 0))"

definition daysInMonth :: "int \<Rightarrow> int \<Rightarrow> int" where
  "daysInMonth y m =
     (if m = 1 then (if isLeapYear y then 29 else 28)
      else if m = 3 \<or> m = 5 \<or> m = 8 \<or> m = 10 then 30 else 31)"

definition prevMonth :: "int \<times> int \<Rightarrow> int \<times> int" where
  "prevMonth ym = (case ym of (y, m) \<Rightarrow> if m = 0 then (y - 1, 11) else (y, m - 1))"

definition nextMonth :: "int \<times> int \<Rightarrow> int \<times> int" where
  "nextMonth ym = (case ym of (y, m) \<Rightarrow> if m = 11 then (y + 1, 0) else (y, m + 1))"

text \<open>
  A day outside its month rolls over into the neighbouring months: day 0 is the last day
  of the month before, day 32 of January is the first of February.
\<close>

function rollDay :: "int \<times> int \<Rightarrow> int \<Rightarrow> Date" where
  "rollDay ym d =
     (if d < 1 then
        rollDay (prevMonth ym) (d + daysInMonth (fst (prevMonth ym)) (snd (prevMonth ym)))
      else if daysInMonth (fst ym) (snd ym) < d then
        rollDay (nextMonth ym) (d - daysInMonth (fst ym) (snd ym))
      else \<lparr>getFullYear = fst ym, getMonth = snd ym, getDate = d\<rparr>)"
  by pat_completeness auto

termination
proof (relation "measure (\<lambda>(ym, d). if d < 1 then nat (33 - d) else nat d)")
  show "wf (measure (\<lambda>(ym, d). if d < 1 then nat (33 - d) else nat d))"
    by simp
next
  fix ym :: "int \<times> int" and d :: int
  assume "d < 1"
  then show "((prevMonth ym, d + daysInMonth (fst (prevMonth ym)) (snd (prevMonth ym))), ym, d)
      \<in> measure (\<lambda>(ym, d). if d < 1 then nat (33 - d) else nat d)"
    by (simp add: daysInMonth_def)
next
  fix ym :: "int \<times> int" and d :: int
  assume "\<not> d < 1" and "daysInMonth (fst ym) (snd ym) < d"
  then show "((nextMonth ym, d - daysInMonth (fst ym) (snd ym)), ym, d)
      \<in> measure (\<lambda>(ym, d). if d < 1 then nat (33 - d) else nat d)"
    by (simp add: daysInMonth_def split: if_splits)
qed

declare rollDay.simps [simp del]

text \<open>
  \<^verbatim>\<open>new Date(year, monthIndex, day)\<close>: a year from 0 to 99 stands for 1900 + year, a
  month index outside 0 to 11 carries into the year, then the day rolls over.
\<close>

definition newDate :: "int \<Rightarrow> int \<Rightarrow> int \<Rightarrow> Date" where
  "newDate y m d =
     (let yr = (if 0 \<le> y \<and> y \<le> 99 then 1900 + y else y)
      in rollDay (yr + m div 12, m mod 12) d)"

subsection \<open>dateFormatString and getDateRange\<close>

record DateRange =
  rangeStart :: string
  rangeEnd :: string

definition dateFormatString :: "Date \<Rightarrow> string" where
  "dateFormatString date =
     numToString (getFullYear date) @ ''-''
       @ sliceLast2 (''00'' @ numToString (getMonth date + 1)) @ ''-''
       @ sliceLast2 (''00'' @ numToString (getDate date))"

text \<open>The instant \<^verbatim>\<open>Date.now()\<close> is a parameter: \<open>now\<close> is \<^verbatim>\<open>new Date(Date.now())\<close>.\<close>

definition getDateRange :: "Date \<Rightarrow> DateRange" where
  "getDateRange now =
     (if getDate now = 1 then
        \<lparr>rangeStart = dateFormatString (newDate (getFullYear now) (getMonth now - 1) 1),
         rangeEnd = dateFormatString (newDate (getFullYear now) (getMonth now) 0)\<rparr>
      else
        \<lparr>rangeStart = dateFormatString (newDate (getFullYear now) (getMonth now) 1),
         rangeEnd = dateFormatString
           (newDate (getFullYear now) (getMonth now) (getDate now - 1))\<rparr>)"

subsection \<open>Outcome of a call to an external service\<close>

text \<open>
  The value a promise rejects with, as far as the code looks at it: the
  \<^verbatim>\<open>.catch\<close> handlers pass it to \<^verbatim>\<open>JSON.stringify\<close>, which returns a string
  or, for a value with a circular reference or a BigInt inside, throws a TypeError.
\<close>

datatype rejection = Serializable | Unserializable

text \<open>A promise settles: it rejects with such a value or resolves with a value.\<close>

datatype 'a settled = Rejected rejection | Resolved 'a

text \<open>
  The handler all three billing functions end with:
  \<^verbatim>\<open>.catch((error) => { console.log('Error caught...');
  console.log(`Error:${JSON.stringify(error)}`); return undefined; })\<close>.
  It resolves with \<^verbatim>\<open>undefined\<close> when the error is serialized; when
  \<^verbatim>\<open>JSON.stringify\<close> throws, the handler throws and the promise of the function
  rejects, with the TypeError, which is itself serializable. The other log lines of the
  functions serialize the request and the shaped billings, records of strings, and do not
  throw.
\<close>

definition catchHandler :: "rejection \<Rightarrow> 'a option settled" where
  "catchHandler error =
     (case error of Serializable \<Rightarrow> Resolved None | Unserializable \<Rightarrow> Rejected Serializable)"

subsection \<open>Cost Explorer: request, response and their parts\<close>

record MetricValue =
  Amount :: "string option"
  Unit :: "string option"

text \<open>
  \<open>AmortizedCost\<close> is \<^verbatim>\<open>item.Metrics.AmortizedCost\<close>: \<open>None\<close> when \<^verbatim>\<open>Metrics\<close> or its
  entry is missing, where reading \<^verbatim>\<open>.Unit\<close> throws a TypeError.
\<close>

record Group =
  Keys :: "string list option"
  AmortizedCost :: "MetricValue option"

text \<open>\<open>TotalAmortizedCost\<close> is \<^verbatim>\<open>Total.AmortizedCost\<close>, read the same way.\<close>

record ResultByTime =
  Groups :: "Group list option"
  TotalAmortizedCost :: "MetricValue option"

record DimensionValuesWithAttributes =
  Value :: "string option"
  Attributes :: "(string \<rightharpoonup> string) option"

record GetCostAndUsageCommandOutput =
  ResultsByTime :: "ResultByTime list option"
  NextPageToken :: "string option"
  DimensionValueAttributes :: "DimensionValuesWithAttributes list option"

text \<open>\<open>GroupBy\<close> holds the key of the one DIMENSION group definition, when there is one.\<close>

record GetCostAndUsageCommandInput =
  PageToken :: "string option"
  TimePeriod :: DateRange
  Granularity :: string
  Metrics :: "string list"
  GroupBy :: "string option"

type_synonym CostExplorerClient =
  "GetCostAndUsageCommandInput \<Rightarrow> GetCostAndUsageCommandOutput settled"

record TotalBilling =
  unit :: "string option"
  amount :: "string option"

record ServiceBilling = TotalBilling +
  service :: "string option"

record AccountBilling = TotalBilling +
  account :: string

subsection \<open>getTotalBilling\<close>

text \<open>The \<^verbatim>\<open>input\<close> of the command, which carries no page token and no grouping.\<close>

definition totalBillingInput :: "DateRange \<Rightarrow> GetCostAndUsageCommandInput" where
  "totalBillingInput dateRange =
     \<lparr>PageToken = None, TimePeriod = dateRange, Granularity = ''MONTHLY'',
      Metrics = [''AMORTIZED_COST''], GroupBy = None\<rparr>"

text \<open>
  A read on \<^verbatim>\<open>undefined\<close> inside the \<^verbatim>\<open>.then\<close> callback throws a TypeError,
  a serializable error, which the handler receives.
\<close>

definition getTotalBilling ::
  "CostExplorerClient \<Rightarrow> DateRange \<Rightarrow> TotalBilling option settled" where
  "getTotalBilling client dateRange =
     (case client (totalBillingInput dateRange) of
        Rejected error \<Rightarrow> catchHandler error
      | Resolved data \<Rightarrow>
          (case ResultsByTime data of
             Some [r] \<Rightarrow>
               (case TotalAmortizedCost r of
                  None \<Rightarrow> catchHandler Serializable
                | Some cost \<Rightarrow> Resolved (Some \<lparr>unit = Unit cost, amount = Amount cost\<rparr>))
           | _ \<Rightarrow> Resolved None))"

subsection \<open>getServiceBilling\<close>

text \<open>\<^verbatim>\<open>item.Keys[0]\<close> on an array: \<^verbatim>\<open>undefined\<close> when the array is empty.\<close>

definition firstKey :: "string list \<Rightarrow> string option" where
  "firstKey ks = (case ks of [] \<Rightarrow> None | k # _ \<Rightarrow> Some k)"

text \<open>
  The loop over the groups of the page, pushing one billing per group onto \<open>billings\<close>;
  \<open>None\<close> is a TypeError thrown by a read on \<^verbatim>\<open>undefined\<close>, which the
  \<^verbatim>\<open>.catch\<close> handler of the caller receives.
\<close>

fun pushServiceBillings :: "Group list \<Rightarrow> ServiceBilling list \<Rightarrow> ServiceBilling list option" where
  "pushServiceBillings [] billings = Some billings"
| "pushServiceBillings (item # items) billings =
     (case Keys item of
        None \<Rightarrow> None
      | Some ks \<Rightarrow>
          (case AmortizedCost item of
             None \<Rightarrow> None
           | Some cost \<Rightarrow>
               pushServiceBillings items
                 (billings @ [\<lparr>unit = Unit cost, amount = Amount cost, service = firstKey ks\<rparr>])))"

text \<open>
  The function calls itself for the next page for as long as pages carry a token, so it
  need not return: the outer option is \<open>None\<close> when it does not. When it returns, its
  promise has settled, and the innermost option is the \<^verbatim>\<open>undefined\<close> of the source.
  The \<^verbatim>\<open>await\<close> of the call for the next page stands inside the \<^verbatim>\<open>.then\<close>
  callback: when that call rejects, the handler of this call receives the error.
\<close>

definition serviceBillingInput :: "DateRange \<Rightarrow> string option \<Rightarrow> GetCostAndUsageCommandInput" where
  "serviceBillingInput dateRange nextPageToken =
     \<lparr>PageToken = nextPageToken, TimePeriod = dateRange, Granularity = ''MONTHLY'',
      Metrics = [''AMORTIZED_COST''], GroupBy = Some ''SERVICE''\<rparr>"

partial_function (option) getServiceBilling ::
  "CostExplorerClient \<Rightarrow> DateRange \<Rightarrow> string option
    \<Rightarrow> ServiceBilling list option settled option" where
  "getServiceBilling client dateRange nextPageToken =
     (case client (serviceBillingInput dateRange nextPageToken) of
        Rejected error \<Rightarrow> Some (catchHandler error)
      | Resolved data \<Rightarrow>
          (case ResultsByTime data of
             Some [r] \<Rightarrow>
               (case Groups r of
                  None \<Rightarrow> Some (catchHandler Serializable)
                | Some groups \<Rightarrow>
                    (case pushServiceBillings groups [] of
                       None \<Rightarrow> Some (catchHandler Serializable)
                     | Some billings \<Rightarrow>
                         if truthy (NextPageToken data) then
                           do {
                             nextBillings \<leftarrow> getServiceBilling client dateRange (NextPageToken data);
                             (case nextBillings of
                                Rejected error \<Rightarrow> Some (catchHandler error)
                              | Resolved (Some nb) \<Rightarrow> Some (Resolved (Some (billings @ nb)))
                              | Resolved None \<Rightarrow> Some (Resolved (Some billings)))
                           }
                         else Some (Resolved (Some billings))))
           | _ \<Rightarrow> Some (Resolved None)))"

subsection \<open>getAccountBillings\<close>

text \<open>\<^verbatim>\<open>attr.Attributes?.description ?? ''\<close>\<close>

definition description :: "DimensionValuesWithAttributes \<Rightarrow> string" where
  "description attr =
     (case Attributes attr of
        None \<Rightarrow> ''''
      | Some as \<Rightarrow> (case as ''description'' of None \<Rightarrow> '''' | Some d \<Rightarrow> d))"

text \<open>
  The inner loop, over the attribute entries, for one group. The comparison
  \<^verbatim>\<open>item.Keys[0] === attr.Value\<close> is between two values that may be \<^verbatim>\<open>undefined\<close>.
\<close>

fun pushMatching ::
  "Group \<Rightarrow> DimensionValuesWithAttributes list \<Rightarrow> AccountBilling list
    \<Rightarrow> AccountBilling list option" where
  "pushMatching item [] billings = Some billings"
| "pushMatching item (attr # attrs) billings =
     (case Keys item of
        None \<Rightarrow> None
      | Some ks \<Rightarrow>
          if firstKey ks = Value attr then
            (case AmortizedCost item of
               None \<Rightarrow> None
             | Some cost \<Rightarrow>
                 pushMatching item attrs
                   (billings @ [\<lparr>unit = Unit cost, amount = Amount cost,
                      account = tmpl (Value attr) @ '' ('' @ description attr @ '')''\<rparr>]))
          else pushMatching item attrs billings)"

text \<open>The outer loop, over the groups of the page.\<close>

fun pushAccountBillings ::
  "Group list \<Rightarrow> DimensionValuesWithAttributes list \<Rightarrow> AccountBilling list
    \<Rightarrow> AccountBilling list option" where
  "pushAccountBillings [] dimensionValueAttributes billings = Some billings"
| "pushAccountBillings (item # items) dimensionValueAttributes billings =
     (case pushMatching item dimensionValueAttributes billings of
        None \<Rightarrow> None
      | Some billings' \<Rightarrow> pushAccountBillings items dimensionValueAttributes billings')"

definition accountBillingsInput :: "DateRange \<Rightarrow> string option \<Rightarrow> GetCostAndUsageCommandInput" where
  "accountBillingsInput dateRange nextPageToken =
     \<lparr>PageToken = nextPageToken, TimePeriod = dateRange, Granularity = ''MONTHLY'',
      Metrics = [''AMORTIZED_COST''], GroupBy = Some ''LINKED_ACCOUNT''\<rparr>"

partial_function (option) getAccountBillings ::
  "CostExplorerClient \<Rightarrow> DateRange \<Rightarrow> string option
    \<Rightarrow> AccountBilling list option settled option" where
  "getAccountBillings client dateRange nextPageToken =
     (case client (accountBillingsInput dateRange nextPageToken) of
        Rejected error \<Rightarrow> Some (catchHandler error)
      | Resolved data \<Rightarrow>
          (case ResultsByTime data of
             Some [r] \<Rightarrow>
               (case Groups r of
                  None \<Rightarrow> Some (catchHandler Serializable)
                | Some groups \<Rightarrow>
                    (case pushAccountBillings groups
                            (case DimensionValueAttributes data of None \<Rightarrow> [] | Some as \<Rightarrow> as) [] of
                       None \<Rightarrow> Some (catchHandler Serializable)
                     | Some billings \<Rightarrow>
                         if truthy (NextPageToken data) then
                           do {
                             nextBillings \<leftarrow> getAccountBillings client dateRange (NextPageToken data);
                             (case nextBillings of
                                Rejected error \<Rightarrow> Some (catchHandler error)
                              | Resolved (Some nb) \<Rightarrow> Some (Resolved (Some (billings @ nb)))
                              | Resolved None \<Rightarrow> Some (Resolved (Some billings)))
                           }
                         else Some (Resolved (Some billings))))
           | _ \<Rightarrow> Some (Resolved None)))"

subsection \<open>Slack: the posted message and the answer to it\<close>

record AttachmentField =
  fieldTitle :: string
  fieldValue :: string
  fieldShort :: bool

record MessageAttachment =
  attachmentTitle :: "string option"
  attachmentText :: "string option"
  attachmentColor :: string
  attachmentFields :: "AttachmentField list option"

record ChatPostMessageArguments =
  postChannel :: string
  icon_emoji :: "string option"
  postText :: "string option"
  thread_ts :: "string option"
  attachments :: "MessageAttachment list"

record ChatPostMessageResponse =
  ok :: bool
  ts :: "string option"

text \<open>\<^verbatim>\<open>new WebClient(token).chat.postMessage\<close>, as a function of the token and the message.\<close>

type_synonym WebClient =
  "string \<Rightarrow> ChatPostMessageArguments \<Rightarrow> ChatPostMessageResponse settled"

subsection \<open>The handler and its steps\<close>

record EventInput =
  type :: "string option"

record SlackSecret =
  token :: "string option"
  channel :: "string option"

record MessageAttachmentField =
  title :: "string option"
  content :: string

text \<open>
  What the handler reads from outside: the environment variable, the secret fetcher, the
  clock, the Cost Explorer client and the Slack client.
\<close>

record World =
  SLACK_SECRET_NAME :: "string option"
  getSecretValue :: "string \<Rightarrow> SlackSecret option settled"
  dateNow :: Date
  ceClient :: CostExplorerClient
  webClient :: WebClient

text \<open>
  A run ends with the string the handler returns or with what it throws: an
  \<^verbatim>\<open>Error\<close> of its own with a message, or the failure of a step whose function
  rejected. \<open>posted\<close> are the messages sent to Slack, in order.
\<close>

datatype failure = Error string | StepFailed string

record Run =
  posted :: "ChatPostMessageArguments list"
  outcome :: "failure + string"

definition EventInputType :: "string list" where
  "EventInputType = [''accounts'', ''services'']"

text \<open>The step \<^verbatim>\<open>fetch-detail-billings\<close>; \<open>content\<close> is the \<^verbatim>\<open>value\<close> of the field.\<close>

definition fetchDetailBillings ::
  "CostExplorerClient \<Rightarrow> DateRange \<Rightarrow> string
    \<Rightarrow> MessageAttachmentField list option settled option" where
  "fetchDetailBillings client dateRange eventType =
     (if eventType = ''accounts'' then
        do {
          accountBillings \<leftarrow> getAccountBillings client dateRange None;
          Some (case accountBillings of
                  Rejected error \<Rightarrow> Rejected error
                | Resolved billings \<Rightarrow>
                    Resolved
                      (map_option
                         (map (\<lambda>v. \<lparr>title = Some (account v),
                                     content = tmpl (amount v) @ '' '' @ tmpl (unit v)\<rparr>))
                         billings))
        }
      else if eventType = ''services'' then
        do {
          serviceBillings \<leftarrow> getServiceBilling client dateRange None;
          Some (case serviceBillings of
                  Rejected error \<Rightarrow> Rejected error
                | Resolved billings \<Rightarrow>
                    Resolved
                      (map_option
                         (map (\<lambda>v. \<lparr>title = service v,
                                     content = tmpl (amount v) @ '' '' @ tmpl (unit v)\<rparr>))
                         billings))
        }
      else Some (Resolved None))"

definition rootMessage :: "string \<Rightarrow> DateRange \<Rightarrow> TotalBilling option \<Rightarrow> ChatPostMessageArguments" where
  "rootMessage ch dateRange totalBilling =
     \<lparr>postChannel = ch,
      icon_emoji = Some '':money-with-wings:'',
      postText = Some (''AWS Cost Reports ('' @ rangeStart dateRange @ '' - ''
                        @ rangeEnd dateRange @ '')''),
      thread_ts = None,
      attachments =
        [\<lparr>attachmentTitle = Some '':moneybag: Total'',
          attachmentText = Some (tmpl (Option.bind totalBilling amount) @ '' ''
                                  @ tmpl (Option.bind totalBilling unit)),
          attachmentColor = ''#ff8c00'',
          attachmentFields = None\<rparr>]\<rparr>"

definition detailMessage ::
  "string \<Rightarrow> string option \<Rightarrow> MessageAttachmentField list option \<Rightarrow> ChatPostMessageArguments" where
  "detailMessage ch parent detailFields =
     \<lparr>postChannel = ch,
      icon_emoji = None,
      postText = None,
      thread_ts = parent,
      attachments =
        [\<lparr>attachmentTitle = None,
          attachmentText = None,
          attachmentColor = ''#ffd700'',
          attachmentFields =
            map_option
              (map (\<lambda>filed. \<lparr>fieldTitle = '':aws: '' @ tmpl (title filed),
                              fieldValue = content filed, fieldShort = False\<rparr>))
              detailFields\<rparr>]\<rparr>"

text \<open>
  The step \<^verbatim>\<open>post-slack-messages\<close>: the messages it sent, and whether its function
  resolved or rejected.
\<close>

definition postSlackMessages ::
  "WebClient \<Rightarrow> string \<Rightarrow> string \<Rightarrow> DateRange \<Rightarrow> TotalBilling option
    \<Rightarrow> MessageAttachmentField list option \<Rightarrow> ChatPostMessageArguments list \<times> unit settled" where
  "postSlackMessages web tok ch dateRange totalBilling detailFields =
     (case web tok (rootMessage ch dateRange totalBilling) of
        Rejected error \<Rightarrow> ([rootMessage ch dateRange totalBilling], Rejected error)
      | Resolved result \<Rightarrow>
          if ok result then
            (case web tok (detailMessage ch (ts result) detailFields) of
               Rejected error \<Rightarrow>
                 ([rootMessage ch dateRange totalBilling, detailMessage ch (ts result) detailFields],
                  Rejected error)
             | Resolved _ \<Rightarrow>
                 ([rootMessage ch dateRange totalBilling, detailMessage ch (ts result) detailFields],
                  Resolved ()))
          else ([rootMessage ch dateRange totalBilling], Resolved ()))"

definition thrown :: "string \<Rightarrow> Run option" where
  "thrown message = Some \<lparr>posted = [], outcome = Inl (Error message)\<rparr>"

text \<open>A step whose function rejected: the run fails, with nothing posted so far.\<close>

definition stepFailed :: "string \<Rightarrow> Run option" where
  "stepFailed name = Some \<lparr>posted = [], outcome = Inl (StepFailed name)\<rparr>"

text \<open>
  The handler, on a first execution (no step is replayed from a checkpoint). A step whose
  function rejects fails the run, with the name of the step; the attempts that the durable
  runtime may repeat before it gives up are not modelled. The steps run in the order of the
  source: the total, then the detail, then the posts. The outer option is \<open>None\<close> when
  the detail fetch does not return.
\<close>

definition handler :: "World \<Rightarrow> EventInput \<Rightarrow> Run option" where
  "handler world event =
     (case SLACK_SECRET_NAME world of
        None \<Rightarrow> thrown ''missing environment variable SLACK_SECRET_NAME.''
      | Some slackSecretName \<Rightarrow>
          if slackSecretName = [] then thrown ''missing environment variable SLACK_SECRET_NAME.''
          else if \<not> truthy (type event) then thrown ''missing input variable type''
          else if the (type event) \<notin> set EventInputType then
            thrown ''invalid input variable Type. Valid values are accounts or services.''
          else
            (case getSecretValue world slackSecretName of
               Rejected error \<Rightarrow> stepFailed ''fetch-slack-secret''
             | Resolved slackSecretValue \<Rightarrow>
                 if \<not> truthy (Option.bind slackSecretValue token)
                    \<or> \<not> truthy (Option.bind slackSecretValue channel)
                 then thrown ''Slack secret must contain token and channel.''
                 else
                   (let dateRange = getDateRange (dateNow world)
                    in case getTotalBilling (ceClient world) dateRange of
                         Rejected error \<Rightarrow> stepFailed ''fetch-total-billing''
                       | Resolved totalBilling \<Rightarrow>
                           do {
                             detail \<leftarrow> fetchDetailBillings (ceClient world) dateRange
                                        (the (type event));
                             (case detail of
                                Rejected error \<Rightarrow> stepFailed ''fetch-detail-billings''
                              | Resolved detailFields \<Rightarrow>
                                  (case postSlackMessages (webClient world)
                                          (the (Option.bind slackSecretValue token))
                                          (the (Option.bind slackSecretValue channel))
                                          dateRange totalBilling detailFields of
                                     (sent, Rejected error) \<Rightarrow>
                                       Some \<lparr>posted = sent,
                                             outcome = Inl (StepFailed ''post-slack-messages'')\<rparr>
                                   | (sent, Resolved _) \<Rightarrow>
                                       Some \<lparr>posted = sent, outcome = Inr ''OK''\<rparr>))
                           })))"

section \<open>Notions in which the properties are stated\<close>

subsection \<open>The reporting period as the specification words it\<close>

definition pad2 :: "nat \<Rightarrow> string" where
  "pad2 n = [digitChar (n div 10), digitChar (n mod 10)]"

text \<open>\<open>YYYY-MM-DD\<close>, for a month numbered from 1.\<close>

definition isoDate :: "int \<Rightarrow> int \<Rightarrow> int \<Rightarrow> string" where
  "isoDate y m d =
     [digitChar (nat y div 1000), digitChar (nat y div 100 mod 10),
      digitChar (nat y div 10 mod 10), digitChar (nat y mod 10)]
     @ ''-'' @ pad2 (nat m) @ ''-'' @ pad2 (nat d)"

definition lastDayOfMonth :: "int \<Rightarrow> int \<Rightarrow> int" where
  "lastDayOfMonth y m =
     [31, if isLeapYear y then 29 else 28, 31, 30, 31, 30, 31, 31, 30, 31, 30, 31] ! nat m"

text \<open>The calendar fields of a date that exists.\<close>

definition validDate :: "Date \<Rightarrow> bool" where
  "validDate t =
     (0 \<le> getMonth t \<and> getMonth t \<le> 11 \<and> 1 \<le> getDate t
      \<and> getDate t \<le> lastDayOfMonth (getFullYear t) (getMonth t))"

text \<open>
  The rule of the specification: on the first of a month, the whole month before, first
  day to last day; on day \<open>n > 1\<close>, the first of the month to day \<open>n - 1\<close>.
\<close>

definition spec_computeRange :: "Date \<Rightarrow> DateRange" where
  "spec_computeRange now =
     (let y = getFullYear now; m = getMonth now; n = getDate now
      in if n = 1 then
           (let py = (if m = 0 then y - 1 else y); pm = (if m = 0 then 11 else m - 1)
            in \<lparr>rangeStart = isoDate py (pm + 1) 1,
                rangeEnd = isoDate py (pm + 1) (lastDayOfMonth py pm)\<rparr>)
         else \<lparr>rangeStart = isoDate y (m + 1) 1, rangeEnd = isoDate y (m + 1) (n - 1)\<rparr>)"

subsection \<open>Pages and chains of pages\<close>

text \<open>
  The billings that the \<^verbatim>\<open>.then\<close> callback shapes from one response, before it looks
  at the token: \<open>None\<close> when the response has not exactly one result bucket, and when
  shaping throws.
\<close>

definition serviceRows :: "GetCostAndUsageCommandOutput \<Rightarrow> ServiceBilling list option" where
  "serviceRows data =
     (case ResultsByTime data of
        Some [r] \<Rightarrow> (case Groups r of None \<Rightarrow> None | Some groups \<Rightarrow> pushServiceBillings groups [])
      | _ \<Rightarrow> None)"

definition accountRows :: "GetCostAndUsageCommandOutput \<Rightarrow> AccountBilling list option" where
  "accountRows data =
     (case ResultsByTime data of
        Some [r] \<Rightarrow>
          (case Groups r of
             None \<Rightarrow> None
           | Some groups \<Rightarrow>
               pushAccountBillings groups
                 (case DimensionValueAttributes data of None \<Rightarrow> [] | Some as \<Rightarrow> as) [])
      | _ \<Rightarrow> None)"

text \<open>
  \<open>pageChain client input shape tok rowss\<close>: starting with the token \<open>tok\<close>, the client
  answers with one page for each element of \<open>rowss\<close>, every page is shaped into its
  element, every page but the last carries a token, which the next request sends, and the
  last page carries none.
\<close>

fun pageChain ::
  "CostExplorerClient \<Rightarrow> (string option \<Rightarrow> GetCostAndUsageCommandInput)
    \<Rightarrow> (GetCostAndUsageCommandOutput \<Rightarrow> 'r list option) \<Rightarrow> string option \<Rightarrow> 'r list list \<Rightarrow> bool" where
  "pageChain client input shape tok [] = False"
| "pageChain client input shape tok (rows # rest) =
     (case client (input tok) of
        Rejected error \<Rightarrow> False
      | Resolved data \<Rightarrow>
          shape data = Some rows
          \<and> (if truthy (NextPageToken data)
             then pageChain client input shape (NextPageToken data) rest
             else rest = []))"

text \<open>
  One call of a paged fetch, given the shaping of a page and what the call for the next
  page returns: the body that \<open>getServiceBilling\<close> and \<open>getAccountBillings\<close> share.
\<close>

definition pagedStep ::
  "CostExplorerClient \<Rightarrow> (string option \<Rightarrow> GetCostAndUsageCommandInput)
    \<Rightarrow> (GetCostAndUsageCommandOutput \<Rightarrow> 'r list option)
    \<Rightarrow> (string option \<Rightarrow> 'r list option settled option) \<Rightarrow> string option
    \<Rightarrow> 'r list option settled option" where
  "pagedStep client input shape next tok =
     (case client (input tok) of
        Rejected error \<Rightarrow> Some (catchHandler error)
      | Resolved data \<Rightarrow>
          (case shape data of
             None \<Rightarrow> Some (Resolved None)
           | Some billings \<Rightarrow>
               if truthy (NextPageToken data) then
                 (case next (NextPageToken data) of
                    None \<Rightarrow> None
                  | Some (Rejected error) \<Rightarrow> Some (catchHandler error)
                  | Some (Resolved None) \<Rightarrow> Some (Resolved (Some billings))
                  | Some (Resolved (Some nb)) \<Rightarrow> Some (Resolved (Some (billings @ nb))))
               else Some (Resolved (Some billings))))"

subsection \<open>Groups that carry their keys and their metric\<close>

definition groupOf :: "string list \<times> MetricValue \<Rightarrow> Group" where
  "groupOf g = \<lparr>Keys = Some (fst g), AmortizedCost = Some (snd g)\<rparr>"

text \<open>The row of such a group by service: its first key, with the unit and the amount.\<close>

definition serviceRow :: "string list \<times> MetricValue \<Rightarrow> ServiceBilling" where
  "serviceRow g = \<lparr>unit = Unit (snd g), amount = Amount (snd g), service = firstKey (fst g)\<rparr>"

text \<open>The attribute entries whose value is the account id of the group, in their order.\<close>

definition matching ::
  "string list \<times> MetricValue \<Rightarrow> DimensionValuesWithAttributes list
    \<Rightarrow> DimensionValuesWithAttributes list" where
  "matching g attrs = filter (\<lambda>a. firstKey (fst g) = Value a) attrs"

text \<open>The row of a group and an attribute entry, labelled \<open>id (description)\<close>.\<close>

definition joinedRow ::
  "string list \<times> MetricValue \<Rightarrow> DimensionValuesWithAttributes \<Rightarrow> AccountBilling" where
  "joinedRow g a =
     \<lparr>unit = Unit (snd g), amount = Amount (snd g),
      account = tmpl (Value a) @ '' ('' @ description a @ '')''\<rparr>"

text \<open>\<^verbatim>\<open>data.DimensionValueAttributes ?? []\<close>\<close>

definition attributesOf :: "GetCostAndUsageCommandOutput \<Rightarrow> DimensionValuesWithAttributes list" where
  "attributesOf data = (case DimensionValueAttributes data of None \<Rightarrow> [] | Some as \<Rightarrow> as)"

subsection \<open>Runs that pass the validation\<close>

text \<open>
  \<open>validated world event ty tok ch\<close>: the secret name is set, the type of the event is
  \<open>ty\<close>, one of the two valid values, and the secret resolves with the token \<open>tok\<close> and the
  channel \<open>ch\<close>, neither of them empty.
\<close>

definition validated :: "World \<Rightarrow> EventInput \<Rightarrow> string \<Rightarrow> string \<Rightarrow> string \<Rightarrow> bool" where
  "validated world event ty tok ch =
     (case SLACK_SECRET_NAME world of
        None \<Rightarrow> False
      | Some name \<Rightarrow>
          name \<noteq> [] \<and> type event = Some ty \<and> ty \<in> set EventInputType
          \<and> (case getSecretValue world name of
                Rejected error \<Rightarrow> False
              | Resolved None \<Rightarrow> False
              | Resolved (Some secret) \<Rightarrow>
                  token secret = Some tok \<and> tok \<noteq> [] \<and> channel secret = Some ch \<and> ch \<noteq> []))"

section \<open>Examples, after the tests of the repository\<close>

subsection \<open>Example responses\<close>

definition usd :: "string \<Rightarrow> MetricValue" where
  "usd a = \<lparr>Amount = Some a, Unit = Some ''USD''\<rparr>"

definition february :: DateRange where
  "february = \<lparr>rangeStart = ''2023-02-01'', rangeEnd = ''2023-02-22''\<rparr>"

definition totalPage :: GetCostAndUsageCommandOutput where
  "totalPage =
     \<lparr>ResultsByTime = Some [\<lparr>Groups = Some [], TotalAmortizedCost = Some (usd ''1.23456'')\<rparr>],
      NextPageToken = None, DimensionValueAttributes = None\<rparr>"

definition servicePage1 :: GetCostAndUsageCommandOutput where
  "servicePage1 =
     \<lparr>ResultsByTime =
        Some [\<lparr>Groups = Some [groupOf ([''AWS CloudTrail''], usd ''0''),
                               groupOf ([''AWS Config''], usd ''0.012'')],
               TotalAmortizedCost = None\<rparr>],
      NextPageToken = Some ''XXXxx'', DimensionValueAttributes = None\<rparr>"

definition servicePage2 :: GetCostAndUsageCommandOutput where
  "servicePage2 =
     \<lparr>ResultsByTime =
        Some [\<lparr>Groups = Some [groupOf ([''Tax''], usd ''1.39'')], TotalAmortizedCost = None\<rparr>],
      NextPageToken = None, DimensionValueAttributes = None\<rparr>"

definition described :: "string \<Rightarrow> string \<Rightarrow> DimensionValuesWithAttributes" where
  "described i d = \<lparr>Value = Some i, Attributes = Some [''description'' \<mapsto> d]\<rparr>"

definition accountPage1 :: GetCostAndUsageCommandOutput where
  "accountPage1 =
     \<lparr>ResultsByTime =
        Some [\<lparr>Groups = Some [groupOf ([''111111111111''], usd ''67.4724468979''),
                               groupOf ([''222222222222''], usd ''6.8423283327'')],
               TotalAmortizedCost = None\<rparr>],
      NextPageToken = Some ''XXXxx'',
      DimensionValueAttributes =
        Some [described ''111111111111'' ''Example System 1A'',
              described ''222222222222'' ''Example System 2A'']\<rparr>"

definition accountPage2 :: GetCostAndUsageCommandOutput where
  "accountPage2 =
     \<lparr>ResultsByTime =
        Some [\<lparr>Groups = Some [groupOf ([''444444444444''], usd ''0.4724468979'')],
               TotalAmortizedCost = None\<rparr>],
      NextPageToken = None,
      DimensionValueAttributes = Some [described ''444444444444'' ''Example System 4A'']\<rparr>"

text \<open>A client that answers the total and both pages of either grouping.\<close>

definition twoPages :: CostExplorerClient where
  "twoPages input =
     (if GroupBy input = None then Resolved totalPage
      else if PageToken input = None then
        (if GroupBy input = Some ''SERVICE'' then Resolved servicePage1 else Resolved accountPage1)
      else if PageToken input = Some ''XXXxx'' then
        (if GroupBy input = Some ''SERVICE'' then Resolved servicePage2 else Resolved accountPage2)
      else Rejected Serializable)"

text \<open>
  A client whose first page of either grouping arrives and whose second page fails, with
  an ordinary error, as the rejections of the tests are.
\<close>

definition secondPageFails :: CostExplorerClient where
  "secondPageFails input =
     (if GroupBy input = None then Resolved totalPage
      else if PageToken input = None then
        (if GroupBy input = Some ''SERVICE'' then Resolved servicePage1 else Resolved accountPage1)
      else Rejected Serializable)"

text \<open>
  A client whose total call rejects with an error that \<^verbatim>\<open>JSON.stringify\<close> cannot
  serialize, and that answers the pages of the detail.
\<close>

definition unserializableTotal :: CostExplorerClient where
  "unserializableTotal input =
     (if GroupBy input = None then Rejected Unserializable
      else if PageToken input = None then
        (if GroupBy input = Some ''SERVICE'' then Resolved servicePage1 else Resolved accountPage1)
      else if PageToken input = Some ''XXXxx'' then
        (if GroupBy input = Some ''SERVICE'' then Resolved servicePage2 else Resolved accountPage2)
      else Rejected Serializable)"

text \<open>
  A page by account whose second group has no attribute entry, and a client that answers
  every request by account with it.
\<close>

definition unmatchedPage :: GetCostAndUsageCommandOutput where
  "unmatchedPage =
     \<lparr>ResultsByTime =
        Some [\<lparr>Groups = Some [groupOf ([''111111111111''], usd ''67.4724468979''),
                               groupOf ([''222222222222''], usd ''6.8423283327'')],
               TotalAmortizedCost = None\<rparr>],
      NextPageToken = None,
      DimensionValueAttributes = Some [described ''111111111111'' ''Example System 1A'']\<rparr>"

definition unmatchedAccounts :: CostExplorerClient where
  "unmatchedAccounts input =
     (if GroupBy input = None then Resolved totalPage else Resolved unmatchedPage)"

text \<open>
  A page by account whose group has two attribute entries, the second without a
  description, next to the entry of another account.
\<close>

definition repeatedPage :: GetCostAndUsageCommandOutput where
  "repeatedPage =
     \<lparr>ResultsByTime =
        Some [\<lparr>Groups = Some [groupOf ([''111111111111''], usd ''67.4724468979'')],
               TotalAmortizedCost = None\<rparr>],
      NextPageToken = None,
      DimensionValueAttributes =
        Some [described ''111111111111'' ''Example System 1A'',
              \<lparr>Value = Some ''111111111111'', Attributes = None\<rparr>,
              described ''333333333333'' ''Example System 3A'']\<rparr>"

definition repeatedAccounts :: CostExplorerClient where
  "repeatedAccounts input =
     (if GroupBy input = None then Resolved totalPage else Resolved repeatedPage)"

subsection \<open>Example runs\<close>

text \<open>The world of the tests, for a given Cost Explorer client and a given Slack client.\<close>

definition exampleWorld :: "CostExplorerClient \<Rightarrow> WebClient \<Rightarrow> World" where
  "exampleWorld client web =
     \<lparr>SLACK_SECRET_NAME = Some ''example/slack/webhook'',
      getSecretValue =
        (\<lambda>name. Resolved (Some \<lparr>token = Some ''xxxx-xxxxxxxxx-xxxx'',
                                  channel = Some ''example-channel''\<rparr>)),
      dateNow = \<lparr>getFullYear = 2023, getMonth = 1, getDate = 23\<rparr>,
      ceClient = client,
      webClient = web\<rparr>"

text \<open>Slack clients: one that accepts every post, one that answers every post with not ok.\<close>

definition postsOk :: WebClient where
  "postsOk tok message = Resolved \<lparr>ok = True, ts = Some ''1677117722.000100''\<rparr>"


section \<open>Properties\<close>

subsection \<open>Dates: rolling over and formatting\<close>

lemma rollDay_in_range:
  "1 \<le> d \<Longrightarrow> d \<le> daysInMonth y m \<Longrightarrow>
     rollDay (y, m) d = \<lparr>getFullYear = y, getMonth = m, getDate = d\<rparr>"
  by (subst rollDay.simps) simp

lemma rollDay_zero:
  "rollDay (y, m) 0 =
     \<lparr>getFullYear = fst (prevMonth (y, m)), getMonth = snd (prevMonth (y, m)),
      getDate = daysInMonth (fst (prevMonth (y, m))) (snd (prevMonth (y, m)))\<rparr>"
proof -
  have "28 \<le> daysInMonth (fst (prevMonth (y, m))) (snd (prevMonth (y, m)))"
    by (simp add: daysInMonth_def)
  then show ?thesis
    by (subst rollDay.simps, subst rollDay.simps) simp
qed

lemma natToString_1: "n < 10 \<Longrightarrow> natToString n = [digitChar n]"
  by (subst natToString.simps) simp

lemma natToString_2:
  "10 \<le> n \<Longrightarrow> n < 100 \<Longrightarrow> natToString n = [digitChar (n div 10), digitChar (n mod 10)]"
  by (subst natToString.simps) (simp add: natToString_1)

lemma natToString_4:
  assumes "1000 \<le> n" "n < 10000"
  shows "natToString n =
     [digitChar (n div 1000), digitChar (n div 100 mod 10), digitChar (n div 10 mod 10),
      digitChar (n mod 10)]"
proof -
  have a: "natToString n = natToString (n div 10) @ [digitChar (n mod 10)]"
    using assms natToString.simps [of n] by simp
  have "\<not> n div 10 < 10" "n div 10 div 10 = n div 100"
    using assms by simp_all
  then have b: "natToString (n div 10) = natToString (n div 100) @ [digitChar (n div 10 mod 10)]"
    using natToString.simps [of "n div 10"] by simp
  have "10 \<le> n div 100" "n div 100 < 100" "n div 100 div 10 = n div 1000"
    using assms by simp_all
  then have c: "natToString (n div 100) = [digitChar (n div 1000), digitChar (n div 100 mod 10)]"
    using natToString_2 [of "n div 100"] by simp
  show ?thesis unfolding a b c by simp
qed

lemma sliceLast2_pad:
  "n < 100 \<Longrightarrow> sliceLast2 (CHR ''0'' # CHR ''0'' # natToString n) = pad2 n"
proof (cases "n < 10")
  case True
  then show ?thesis
    by (simp add: natToString_1 sliceLast2_def pad2_def digitChar_def)
next
  case False
  assume "n < 100"
  with False show ?thesis
    by (simp add: natToString_2 sliceLast2_def pad2_def)
qed

lemma dateFormatString_iso:
  assumes "1000 \<le> y" "y \<le> 9999" "0 \<le> m" "m \<le> 11" "1 \<le> d" "d \<le> 31"
  shows "dateFormatString \<lparr>getFullYear = y, getMonth = m, getDate = d\<rparr> = isoDate y (m + 1) d"
proof -
  have y: "numToString y = [digitChar (nat y div 1000), digitChar (nat y div 100 mod 10),
      digitChar (nat y div 10 mod 10), digitChar (nat y mod 10)]"
    using assms natToString_4 [of "nat y"] by (simp add: numToString_def)
  have m: "sliceLast2 (CHR ''0'' # CHR ''0'' # numToString (m + 1)) = pad2 (nat (m + 1))"
    using assms sliceLast2_pad [of "nat (m + 1)"] by (simp add: numToString_def)
  have d: "sliceLast2 (CHR ''0'' # CHR ''0'' # numToString d) = pad2 (nat d)"
    using assms sliceLast2_pad [of "nat d"] by (simp add: numToString_def)
  show ?thesis
    by (simp add: dateFormatString_def isoDate_def y m d)
qed

lemma month_cases:
  assumes "0 \<le> m" "m \<le> 11"
  shows "m = 0 \<or> m = 1 \<or> m = 2 \<or> m = 3 \<or> m = 4 \<or> m = 5 \<or> m = 6 \<or> m = 7 \<or> m = 8
         \<or> m = 9 \<or> m = 10 \<or> m = (11::int)"
  using assms by arith

lemma lastDayOfMonth_eq:
  assumes "0 \<le> m" "m \<le> 11"
  shows "lastDayOfMonth y m = daysInMonth y m"
  using month_cases [OF assms] by (auto simp: lastDayOfMonth_def daysInMonth_def)

lemma newDate_in_range:
  assumes "100 \<le> y" "0 \<le> m" "m \<le> 11" "1 \<le> d" "d \<le> daysInMonth y m"
  shows "newDate y m d = \<lparr>getFullYear = y, getMonth = m, getDate = d\<rparr>"
  using assms by (simp add: newDate_def rollDay_in_range)

lemma newDate_prev_first:
  assumes "100 \<le> y" "0 \<le> m" "m \<le> 11"
  shows "newDate y (m - 1) 1 =
     \<lparr>getFullYear = (if m = 0 then y - 1 else y), getMonth = (if m = 0 then 11 else m - 1),
      getDate = 1\<rparr>"
proof (cases "m = 0")
  case True
  then show ?thesis
    using assms by (simp add: newDate_def rollDay_in_range daysInMonth_def)
next
  case False
  with assms have "(m - 1) div 12 = 0" "(m - 1) mod 12 = m - 1"
    by simp_all
  with False show ?thesis
    using assms by (simp add: newDate_def rollDay_in_range daysInMonth_def)
qed

lemma newDate_day_zero:
  assumes "100 \<le> y" "0 \<le> m" "m \<le> 11"
  shows "newDate y m 0 =
     \<lparr>getFullYear = (if m = 0 then y - 1 else y), getMonth = (if m = 0 then 11 else m - 1),
      getDate = daysInMonth (if m = 0 then y - 1 else y) (if m = 0 then 11 else m - 1)\<rparr>"
  using assms by (simp add: newDate_def rollDay_zero prevMonth_def)

text \<open>
  Claim C1. For a clock that shows an existing date in a year from 1970 to 9999,
  \<open>getDateRange\<close> returns the period of the specification: on the first of a month the
  whole month before, from its first day to its last; on day \<open>n > 1\<close> of month \<open>m\<close> the
  first of \<open>m\<close> to day \<open>n - 1\<close> of \<open>m\<close>; both ends written \<open>YYYY-MM-DD\<close>.
\<close>

theorem getDateRange_refines_spec:
  assumes "validDate now" "1970 \<le> getFullYear now" "getFullYear now \<le> 9999"
  shows "getDateRange now = spec_computeRange now"
proof -
  define y where "y = getFullYear now"
  define m where "m = getMonth now"
  define n where "n = getDate now"
  define py where "py = (if m = 0 then y - 1 else y)"
  define pm where "pm = (if m = 0 then 11 else m - 1)"
  note fields = y_def [symmetric] m_def [symmetric] n_def [symmetric]
  note prev = py_def [symmetric] pm_def [symmetric]
  have m: "0 \<le> m" "m \<le> 11"
    using assms(1) by (simp_all add: validDate_def m_def)
  have n: "1 \<le> n" "n \<le> daysInMonth y m"
    using assms(1) lastDayOfMonth_eq [OF m, of y]
    by (simp_all add: validDate_def y_def m_def n_def)
  have y: "100 \<le> y" "1000 \<le> y" "y \<le> 9999"
    using assms(2,3) by (simp_all add: y_def)
  have p: "1000 \<le> py" "py \<le> 9999" "0 \<le> pm" "pm \<le> 11"
    using y m assms(2) by (simp_all add: py_def pm_def y_def)
  have dim: "28 \<le> daysInMonth py pm" "daysInMonth py pm \<le> 31" "daysInMonth y m \<le> 31"
    by (simp_all add: daysInMonth_def)
  show ?thesis
  proof (cases "n = 1")
    case True
    have s: "dateFormatString (newDate y (m - 1) 1) = isoDate py (pm + 1) 1"
      using newDate_prev_first [OF y(1) m] dateFormatString_iso [OF p, of 1]
      by (simp add: prev)
    have e: "dateFormatString (newDate y m 0) = isoDate py (pm + 1) (lastDayOfMonth py pm)"
      using newDate_day_zero [OF y(1) m] dateFormatString_iso [OF p, of "daysInMonth py pm"] dim
        lastDayOfMonth_eq [OF p(3,4), of py]
      by (simp add: prev)
    from True s e show ?thesis
      by (simp add: getDateRange_def spec_computeRange_def fields prev Let_def)
  next
    case False
    with n have n1: "1 \<le> n - 1" "n - 1 \<le> daysInMonth y m" "n - 1 \<le> 31" "(1::int) \<le> 1"
      "1 \<le> daysInMonth y m" using dim by simp_all
    have s: "dateFormatString (newDate y m 1) = isoDate y (m + 1) 1"
      using newDate_in_range [OF y(1) m n1(4,5)] dateFormatString_iso [OF y(2,3) m, of 1]
      by simp
    have e: "dateFormatString (newDate y m (n - 1)) = isoDate y (m + 1) (n - 1)"
      using newDate_in_range [OF y(1) m n1(1,2)] dateFormatString_iso [OF y(2,3) m n1(1,3)]
      by simp
    from False s e show ?thesis
      by (simp add: getDateRange_def spec_computeRange_def fields Let_def)
  qed
qed

theorem getDateRange_refines_spec_witness:
  "validDate \<lparr>getFullYear = 2023, getMonth = 1, getDate = 23\<rparr>
   \<and> (1970::int) \<le> 2023 \<and> (2023::int) \<le> 9999
   \<and> getDateRange \<lparr>getFullYear = 2023, getMonth = 1, getDate = 23\<rparr>
       = \<lparr>rangeStart = ''2023-02-01'', rangeEnd = ''2023-02-22''\<rparr>
   \<and> validDate \<lparr>getFullYear = 2023, getMonth = 1, getDate = 1\<rparr>
   \<and> getDateRange \<lparr>getFullYear = 2023, getMonth = 1, getDate = 1\<rparr>
       = \<lparr>rangeStart = ''2023-01-01'', rangeEnd = ''2023-01-31''\<rparr>
   \<and> validDate \<lparr>getFullYear = 2024, getMonth = 2, getDate = 1\<rparr>
   \<and> getDateRange \<lparr>getFullYear = 2024, getMonth = 2, getDate = 1\<rparr>
       = \<lparr>rangeStart = ''2024-02-01'', rangeEnd = ''2024-02-29''\<rparr>
   \<and> validDate \<lparr>getFullYear = 2024, getMonth = 0, getDate = 1\<rparr>
   \<and> getDateRange \<lparr>getFullYear = 2024, getMonth = 0, getDate = 1\<rparr>
       = \<lparr>rangeStart = ''2023-12-01'', rangeEnd = ''2023-12-31''\<rparr>"
proof -
  note ev = lastDayOfMonth_def isLeapYear_def spec_computeRange_def isoDate_def pad2_def
    digitChar_def
  have a: "validDate \<lparr>getFullYear = 2023, getMonth = 1, getDate = 23\<rparr>"
    by (simp add: validDate_def lastDayOfMonth_def isLeapYear_def)
  have b: "validDate \<lparr>getFullYear = 2023, getMonth = 1, getDate = 1\<rparr>"
    by (simp add: validDate_def lastDayOfMonth_def isLeapYear_def)
  have c: "validDate \<lparr>getFullYear = 2024, getMonth = 2, getDate = 1\<rparr>"
    by (simp add: validDate_def lastDayOfMonth_def isLeapYear_def)
  have d: "validDate \<lparr>getFullYear = 2024, getMonth = 0, getDate = 1\<rparr>"
    by (simp add: validDate_def lastDayOfMonth_def isLeapYear_def)
  have 1: "getDateRange \<lparr>getFullYear = 2023, getMonth = 1, getDate = 23\<rparr>
       = \<lparr>rangeStart = ''2023-02-01'', rangeEnd = ''2023-02-22''\<rparr>"
    using getDateRange_refines_spec [OF a] by (simp add: ev)
  have 2: "getDateRange \<lparr>getFullYear = 2023, getMonth = 1, getDate = 1\<rparr>
       = \<lparr>rangeStart = ''2023-01-01'', rangeEnd = ''2023-01-31''\<rparr>"
    using getDateRange_refines_spec [OF b] by (simp add: ev)
  have 3: "getDateRange \<lparr>getFullYear = 2024, getMonth = 2, getDate = 1\<rparr>
       = \<lparr>rangeStart = ''2024-02-01'', rangeEnd = ''2024-02-29''\<rparr>"
    using getDateRange_refines_spec [OF c] by (simp add: ev)
  have 4: "getDateRange \<lparr>getFullYear = 2024, getMonth = 0, getDate = 1\<rparr>
       = \<lparr>rangeStart = ''2023-12-01'', rangeEnd = ''2023-12-31''\<rparr>"
    using getDateRange_refines_spec [OF d] by (simp add: ev)
  from a b c d 1 2 3 4 show ?thesis by simp
qed

subsection \<open>Paged fetches\<close>

lemma getServiceBilling_step:
  "getServiceBilling client dr tok =
     pagedStep client (serviceBillingInput dr) serviceRows (getServiceBilling client dr) tok"
  by (subst getServiceBilling.simps)
     (simp add: pagedStep_def serviceRows_def catchHandler_def
        split: settled.splits option.splits list.splits)

lemma getAccountBillings_step:
  "getAccountBillings client dr tok =
     pagedStep client (accountBillingsInput dr) accountRows (getAccountBillings client dr) tok"
  by (subst getAccountBillings.simps)
     (simp add: pagedStep_def accountRows_def catchHandler_def
        split: settled.splits option.splits list.splits)

lemma chain_result:
  assumes step: "\<And>t. f t = pagedStep client input shape f t"
  shows "pageChain client input shape tok rowss \<Longrightarrow>
           f tok = Some (Resolved (Some (concat rowss)))"
proof (induction rowss arbitrary: tok)
  case Nil
  then show ?case by simp
next
  case (Cons rows rest)
  from Cons.prems obtain data where
    d: "client (input tok) = Resolved data" "shape data = Some rows" and
    n: "if truthy (NextPageToken data) then pageChain client input shape (NextPageToken data) rest
        else rest = []"
    by (auto split: settled.splits)
  show ?case
  proof (cases "truthy (NextPageToken data)")
    case True
    with n Cons.IH have "f (NextPageToken data) = Some (Resolved (Some (concat rest)))" by simp
    with d True show ?thesis by (subst step) (simp add: pagedStep_def)
  next
    case False
    with n d show ?thesis by (subst step) (simp add: pagedStep_def)
  qed
qed

lemma single_page_result:
  assumes step: "\<And>t. f t = pagedStep client input shape f t"
    and "client (input tok) = Resolved data" "\<not> truthy (NextPageToken data)"
  shows "f tok = Some (Resolved (shape data))"
  using assms(2,3) by (subst step) (simp add: pagedStep_def split: option.splits)

lemma next_page_rejected:
  assumes step: "\<And>t. f t = pagedStep client input shape f t"
    and "client (input tok) = Resolved data" "shape data = Some rows"
    and "truthy (NextPageToken data)"
    and "client (input (NextPageToken data)) = Rejected Serializable"
  shows "f tok = Some (Resolved (Some rows))"
proof -
  from assms(5) have "f (NextPageToken data) = Some (Resolved None)"
    by (subst step) (simp add: pagedStep_def catchHandler_def)
  with assms(2-4) show ?thesis
    by (subst step) (simp add: pagedStep_def)
qed

subsection \<open>The loops over the groups of a page\<close>

lemma pushServiceBillings_groupOf:
  "pushServiceBillings (map groupOf gs) acc = Some (acc @ map serviceRow gs)"
  by (induction gs arbitrary: acc) (simp_all add: groupOf_def serviceRow_def)

lemma pushServiceBillings_Some:
  "pushServiceBillings groups acc = Some rows \<Longrightarrow>
     \<exists>gs. groups = map groupOf gs \<and> rows = acc @ map serviceRow gs"
proof (induction groups arbitrary: acc)
  case Nil
  then show ?case by simp
next
  case (Cons item items)
  from Cons.prems obtain ks c where
    k: "Keys item = Some ks" "AmortizedCost item = Some c" and
    r: "pushServiceBillings items (acc @ [serviceRow (ks, c)]) = Some rows"
    by (auto simp: serviceRow_def split: option.splits)
  from Cons.IH [OF r] obtain gs where
    gs: "items = map groupOf gs" "rows = (acc @ [serviceRow (ks, c)]) @ map serviceRow gs"
    by blast
  from k have "item = groupOf (ks, c)" by (simp add: groupOf_def)
  with gs have "item # items = map groupOf ((ks, c) # gs) \<and> rows = acc @ map serviceRow ((ks, c) # gs)"
    by simp
  then show ?case by (rule exI)
qed

lemma pushMatching_groupOf:
  "pushMatching (groupOf g) attrs acc = Some (acc @ map (joinedRow g) (matching g attrs))"
  by (induction attrs arbitrary: acc) (simp_all add: groupOf_def joinedRow_def matching_def)

lemma pushAccountBillings_groupOf:
  "pushAccountBillings (map groupOf gs) attrs acc
     = Some (acc @ concat (map (\<lambda>g. map (joinedRow g) (matching g attrs)) gs))"
  by (induction gs arbitrary: acc) (simp_all add: pushMatching_groupOf)

lemma serviceRows_iff:
  "serviceRows data = Some rows \<longleftrightarrow>
     (\<exists>r gs. ResultsByTime data = Some [r] \<and> Groups r = Some (map groupOf gs)
             \<and> rows = map serviceRow gs)"
proof
  assume a: "serviceRows data = Some rows"
  then obtain r groups where
    r: "ResultsByTime data = Some [r]" "Groups r = Some groups"
       "pushServiceBillings groups [] = Some rows"
    by (auto simp: serviceRows_def split: option.splits list.splits)
  from pushServiceBillings_Some [OF r(3)] r(1,2)
  show "\<exists>r gs. ResultsByTime data = Some [r] \<and> Groups r = Some (map groupOf gs)
             \<and> rows = map serviceRow gs"
    by auto
next
  assume "\<exists>r gs. ResultsByTime data = Some [r] \<and> Groups r = Some (map groupOf gs)
             \<and> rows = map serviceRow gs"
  then show "serviceRows data = Some rows"
    by (auto simp: serviceRows_def pushServiceBillings_groupOf)
qed

subsection \<open>Pagination\<close>

text \<open>
  Claim C4. When the client answers a chain of pages, each shaped into billings and each
  but the last carrying a token, the fetch by service and the fetch by account follow the
  tokens to the page that carries none and return the billings of all pages, concatenated
  in page order. The billings of a page by service are one row for each group of its one
  result bucket, in the order of the groups.
\<close>

theorem paged_fetch_concatenates:
  "(pageChain client (serviceBillingInput dr) serviceRows tok srowss \<longrightarrow>
      getServiceBilling client dr tok = Some (Resolved (Some (concat srowss))))
   \<and> (pageChain client (accountBillingsInput dr) accountRows tok arowss \<longrightarrow>
      getAccountBillings client dr tok = Some (Resolved (Some (concat arowss))))
   \<and> (serviceRows data = Some rows \<longleftrightarrow>
        (\<exists>r gs. ResultsByTime data = Some [r] \<and> Groups r = Some (map groupOf gs)
                \<and> rows = map serviceRow gs))"
  using chain_result [of "getServiceBilling client dr" client "serviceBillingInput dr" serviceRows
      tok srowss, OF getServiceBilling_step]
    chain_result [of "getAccountBillings client dr" client "accountBillingsInput dr" accountRows
      tok arowss, OF getAccountBillings_step]
    serviceRows_iff [of data rows]
  by blast

lemma twoPages_service_chain:
  "pageChain twoPages (serviceBillingInput february) serviceRows None
     [[serviceRow ([''AWS CloudTrail''], usd ''0''), serviceRow ([''AWS Config''], usd ''0.012'')],
      [serviceRow ([''Tax''], usd ''1.39'')]]"
  by (simp add: twoPages_def serviceBillingInput_def serviceRows_def servicePage1_def
      servicePage2_def truthy_def groupOf_def serviceRow_def)

lemma twoPages_account_chain:
  "pageChain twoPages (accountBillingsInput february) accountRows None
     [[joinedRow ([''111111111111''], usd ''67.4724468979'')
         (described ''111111111111'' ''Example System 1A''),
       joinedRow ([''222222222222''], usd ''6.8423283327'')
         (described ''222222222222'' ''Example System 2A'')],
      [joinedRow ([''444444444444''], usd ''0.4724468979'')
         (described ''444444444444'' ''Example System 4A'')]]"
  by (simp add: twoPages_def accountBillingsInput_def accountRows_def accountPage1_def
      accountPage2_def truthy_def described_def firstKey_def groupOf_def joinedRow_def)


theorem paged_fetch_concatenates_witness:
  "pageChain twoPages (serviceBillingInput february) serviceRows None
     [[serviceRow ([''AWS CloudTrail''], usd ''0''), serviceRow ([''AWS Config''], usd ''0.012'')],
      [serviceRow ([''Tax''], usd ''1.39'')]]
   \<and> getServiceBilling twoPages february None =
       Some (Resolved (Some [\<lparr>unit = Some ''USD'', amount = Some ''0'', service = Some ''AWS CloudTrail''\<rparr>,
                   \<lparr>unit = Some ''USD'', amount = Some ''0.012'', service = Some ''AWS Config''\<rparr>,
                   \<lparr>unit = Some ''USD'', amount = Some ''1.39'', service = Some ''Tax''\<rparr>]))
   \<and> pageChain twoPages (accountBillingsInput february) accountRows None
     [[joinedRow ([''111111111111''], usd ''67.4724468979'')
         (described ''111111111111'' ''Example System 1A''),
       joinedRow ([''222222222222''], usd ''6.8423283327'')
         (described ''222222222222'' ''Example System 2A'')],
      [joinedRow ([''444444444444''], usd ''0.4724468979'')
         (described ''444444444444'' ''Example System 4A'')]]
   \<and> getAccountBillings twoPages february None =
       Some (Resolved (Some [\<lparr>unit = Some ''USD'', amount = Some ''67.4724468979'',
                     account = ''111111111111 (Example System 1A)''\<rparr>,
                   \<lparr>unit = Some ''USD'', amount = Some ''6.8423283327'',
                     account = ''222222222222 (Example System 2A)''\<rparr>,
                   \<lparr>unit = Some ''USD'', amount = Some ''0.4724468979'',
                     account = ''444444444444 (Example System 4A)''\<rparr>]))
   \<and> serviceRows servicePage2 = Some (map serviceRow [([''Tax''], usd ''1.39'')])"
proof -
  note t = paged_fetch_concatenates [where client = twoPages and dr = february and tok = None
      and srowss = "[[serviceRow ([''AWS CloudTrail''], usd ''0''),
                      serviceRow ([''AWS Config''], usd ''0.012'')],
                     [serviceRow ([''Tax''], usd ''1.39'')]]"
      and arowss = "[[joinedRow ([''111111111111''], usd ''67.4724468979'')
                        (described ''111111111111'' ''Example System 1A''),
                      joinedRow ([''222222222222''], usd ''6.8423283327'')
                        (described ''222222222222'' ''Example System 2A'')],
                     [joinedRow ([''444444444444''], usd ''0.4724468979'')
                        (described ''444444444444'' ''Example System 4A'')]]"
      and data = servicePage2 and rows = "map serviceRow [([''Tax''], usd ''1.39'')]"]
  have e: "\<exists>r gs. ResultsByTime servicePage2 = Some [r] \<and> Groups r = Some (map groupOf gs)
      \<and> map serviceRow [([''Tax''], usd ''1.39'')] = map serviceRow gs"
    by (rule exI [of _ "\<lparr>Groups = Some [groupOf ([''Tax''], usd ''1.39'')],
          TotalAmortizedCost = None\<rparr>"], rule exI [of _ "[([''Tax''], usd ''1.39'')]"])
       (simp add: servicePage2_def)
  note s = t [THEN conjunct1, THEN mp, OF twoPages_service_chain]
  note a = t [THEN conjunct2, THEN conjunct1, THEN mp, OF twoPages_account_chain]
  note r = t [THEN conjunct2, THEN conjunct2, THEN iffD2, OF e]
  have s': "getServiceBilling twoPages february None =
       Some (Resolved (Some [\<lparr>unit = Some ''USD'', amount = Some ''0'', service = Some ''AWS CloudTrail''\<rparr>,
                   \<lparr>unit = Some ''USD'', amount = Some ''0.012'', service = Some ''AWS Config''\<rparr>,
                   \<lparr>unit = Some ''USD'', amount = Some ''1.39'', service = Some ''Tax''\<rparr>]))"
    using s by (simp add: serviceRow_def usd_def firstKey_def)
  have a': "getAccountBillings twoPages february None =
       Some (Resolved (Some [\<lparr>unit = Some ''USD'', amount = Some ''67.4724468979'',
                     account = ''111111111111 (Example System 1A)''\<rparr>,
                   \<lparr>unit = Some ''USD'', amount = Some ''6.8423283327'',
                     account = ''222222222222 (Example System 2A)''\<rparr>,
                   \<lparr>unit = Some ''USD'', amount = Some ''0.4724468979'',
                     account = ''444444444444 (Example System 4A)''\<rparr>]))"
    using a by (simp add: joinedRow_def usd_def described_def tmpl_def description_def)
  from twoPages_service_chain s' twoPages_account_chain a' r show ?thesis
    by (intro conjI)
qed

lemma secondPageFails_services:
  "getServiceBilling secondPageFails february None =
     Some (Resolved (Some [\<lparr>unit = Some ''USD'', amount = Some ''0'',
                              service = Some ''AWS CloudTrail''\<rparr>,
                            \<lparr>unit = Some ''USD'', amount = Some ''0.012'',
                              service = Some ''AWS Config''\<rparr>]))"
proof -
  have c: "secondPageFails (serviceBillingInput february None) = Resolved servicePage1"
    by (simp add: secondPageFails_def serviceBillingInput_def)
  have r: "serviceRows servicePage1 =
      Some [\<lparr>unit = Some ''USD'', amount = Some ''0'', service = Some ''AWS CloudTrail''\<rparr>,
            \<lparr>unit = Some ''USD'', amount = Some ''0.012'', service = Some ''AWS Config''\<rparr>]"
    by (simp add: serviceRows_def servicePage1_def groupOf_def usd_def firstKey_def)
  have t: "truthy (NextPageToken servicePage1)"
    by (simp add: servicePage1_def truthy_def)
  have n: "secondPageFails (serviceBillingInput february (NextPageToken servicePage1))
      = Rejected Serializable"
    by (simp add: secondPageFails_def serviceBillingInput_def servicePage1_def)
  show ?thesis
    by (rule next_page_rejected [of "getServiceBilling secondPageFails february" secondPageFails
        "serviceBillingInput february" serviceRows None servicePage1,
        OF getServiceBilling_step c r t n])
qed

lemma secondPageFails_accounts:
  "getAccountBillings secondPageFails february None =
     Some (Resolved (Some [\<lparr>unit = Some ''USD'', amount = Some ''67.4724468979'',
                              account = ''111111111111 (Example System 1A)''\<rparr>,
                            \<lparr>unit = Some ''USD'', amount = Some ''6.8423283327'',
                              account = ''222222222222 (Example System 2A)''\<rparr>]))"
proof -
  have c: "secondPageFails (accountBillingsInput february None) = Resolved accountPage1"
    by (simp add: secondPageFails_def accountBillingsInput_def)
  have r: "accountRows accountPage1 =
      Some [\<lparr>unit = Some ''USD'', amount = Some ''67.4724468979'',
              account = ''111111111111 (Example System 1A)''\<rparr>,
            \<lparr>unit = Some ''USD'', amount = Some ''6.8423283327'',
              account = ''222222222222 (Example System 2A)''\<rparr>]"
    by (simp add: accountRows_def accountPage1_def groupOf_def usd_def firstKey_def
        described_def tmpl_def description_def)
  have t: "truthy (NextPageToken accountPage1)"
    by (simp add: accountPage1_def truthy_def)
  have n: "secondPageFails (accountBillingsInput february (NextPageToken accountPage1))
      = Rejected Serializable"
    by (simp add: secondPageFails_def accountBillingsInput_def accountPage1_def)
  show ?thesis
    by (rule next_page_rejected [of "getAccountBillings secondPageFails february" secondPageFails
        "accountBillingsInput february" accountRows None accountPage1,
        OF getAccountBillings_step c r t n])
qed

text \<open>
  Claim C2 does not hold of the code. When the first page arrives with a token and the
  fetch of the second page rejects, with an ordinary error, the fetch by service and the
  fetch by account resolve with the rows of the first page: a partial sequence, where the
  claim, the specification and the \<^verbatim>\<open>@returns\<close> line of both functions
  ("undefined on error") have \<^verbatim>\<open>undefined\<close>.
\<close>

theorem second_page_failure_keeps_first_page:
  "secondPageFails (serviceBillingInput february None) = Resolved servicePage1
   \<and> NextPageToken servicePage1 = Some ''XXXxx''
   \<and> secondPageFails (serviceBillingInput february (Some ''XXXxx'')) = Rejected Serializable
   \<and> getServiceBilling secondPageFails february None =
       Some (Resolved (Some [\<lparr>unit = Some ''USD'', amount = Some ''0'',
                                service = Some ''AWS CloudTrail''\<rparr>,
                              \<lparr>unit = Some ''USD'', amount = Some ''0.012'',
                                service = Some ''AWS Config''\<rparr>]))
   \<and> getServiceBilling secondPageFails february None \<noteq> Some (Resolved None)
   \<and> secondPageFails (accountBillingsInput february (Some ''XXXxx'')) = Rejected Serializable
   \<and> getAccountBillings secondPageFails february None =
       Some (Resolved (Some [\<lparr>unit = Some ''USD'', amount = Some ''67.4724468979'',
                                account = ''111111111111 (Example System 1A)''\<rparr>,
                              \<lparr>unit = Some ''USD'', amount = Some ''6.8423283327'',
                                account = ''222222222222 (Example System 2A)''\<rparr>]))
   \<and> getAccountBillings secondPageFails february None \<noteq> Some (Resolved None)"
  by (simp add: secondPageFails_services secondPageFails_accounts secondPageFails_def
      serviceBillingInput_def accountBillingsInput_def servicePage1_def)

subsection \<open>The join of groups and account attributes\<close>

lemma accountRows_groupOf:
  assumes "ResultsByTime data = Some [r]" "Groups r = Some (map groupOf gs)"
  shows "accountRows data
     = Some (concat (map (\<lambda>g. map (joinedRow g) (matching g (attributesOf data))) gs))"
  using assms by (simp add: accountRows_def attributesOf_def pushAccountBillings_groupOf)

text \<open>
  Claim C3 does not hold of the code. On a page whose second group has an account id that
  no attribute entry carries, the fetch by account resolves with the row of the first group
  only: the second account has no row at all, where the claim has a row under its raw id
  (and the README has a line for each member account).
\<close>

theorem unmatched_account_has_no_row:
  "unmatchedAccounts (accountBillingsInput february None) = Resolved unmatchedPage
   \<and> ResultsByTime unmatchedPage =
       Some [\<lparr>Groups = Some [groupOf ([''111111111111''], usd ''67.4724468979''),
                              groupOf ([''222222222222''], usd ''6.8423283327'')],
              TotalAmortizedCost = None\<rparr>]
   \<and> DimensionValueAttributes unmatchedPage
       = Some [described ''111111111111'' ''Example System 1A'']
   \<and> getAccountBillings unmatchedAccounts february None =
       Some (Resolved (Some [\<lparr>unit = Some ''USD'', amount = Some ''67.4724468979'',
                                account = ''111111111111 (Example System 1A)''\<rparr>]))"
proof -
  have c: "unmatchedAccounts (accountBillingsInput february None) = Resolved unmatchedPage"
    by (simp add: unmatchedAccounts_def accountBillingsInput_def)
  have n: "\<not> truthy (NextPageToken unmatchedPage)"
    by (simp add: unmatchedPage_def truthy_def)
  have r: "accountRows unmatchedPage =
       Some [\<lparr>unit = Some ''USD'', amount = Some ''67.4724468979'',
               account = ''111111111111 (Example System 1A)''\<rparr>]"
    by (simp add: unmatchedPage_def accountRows_def groupOf_def described_def firstKey_def
        usd_def tmpl_def description_def)
  from single_page_result [of "getAccountBillings unmatchedAccounts february" unmatchedAccounts
      "accountBillingsInput february" accountRows None unmatchedPage,
      OF getAccountBillings_step c n] r c
  show ?thesis
    by (simp add: unmatchedPage_def)
qed

text \<open>
  Claim C10. When the client resolves a request by account with a page of one result
  bucket whose groups carry keys and metric, the rows that the fetch by account emits for
  the page are, group after group, one row for each attribute entry whose value is the
  account id of the group, in the order of the entries: they are the whole result when the
  page carries no token, and they stand before the rows of the later pages when it carries
  one. A group with \<open>k\<close> matching entries has exactly \<open>k\<close> rows, and an entry with no
  description gives the label \<open>id ()\<close>.
\<close>

theorem one_row_per_matching_entry:
  "(client (accountBillingsInput dr tok) = Resolved data
      \<and> ResultsByTime data = Some [r] \<and> Groups r = Some (map groupOf gs) \<longrightarrow>
        (\<not> truthy (NextPageToken data) \<longrightarrow>
           getAccountBillings client dr tok =
             Some (Resolved (Some (concat (map (\<lambda>g. map (joinedRow g)
                                                       (matching g (attributesOf data))) gs)))))
        \<and> (truthy (NextPageToken data)
             \<and> getAccountBillings client dr (NextPageToken data) = Some (Resolved (Some later)) \<longrightarrow>
           getAccountBillings client dr tok =
             Some (Resolved (Some (concat (map (\<lambda>g. map (joinedRow g)
                                                       (matching g (attributesOf data))) gs)
                                   @ later)))))
   \<and> length (map (joinedRow g) (matching g attrs))
       = length (filter (\<lambda>a. firstKey (fst g) = Value a) attrs)
   \<and> (Value a = Some i
       \<and> (Attributes a = None \<or> (\<exists>m. Attributes a = Some m \<and> m ''description'' = None))
        \<longrightarrow> account (joinedRow g a) = i @ '' ()'')"
proof (intro conjI impI)
  assume a: "client (accountBillingsInput dr tok) = Resolved data
      \<and> ResultsByTime data = Some [r] \<and> Groups r = Some (map groupOf gs)"
  then have rows: "accountRows data
      = Some (concat (map (\<lambda>g. map (joinedRow g) (matching g (attributesOf data))) gs))"
    by (simp add: accountRows_groupOf)
  {
    assume "\<not> truthy (NextPageToken data)"
    with a rows show "getAccountBillings client dr tok =
        Some (Resolved (Some (concat (map (\<lambda>g. map (joinedRow g)
                                                  (matching g (attributesOf data))) gs))))"
      by (subst getAccountBillings_step) (simp add: pagedStep_def)
  next
    assume "truthy (NextPageToken data)
      \<and> getAccountBillings client dr (NextPageToken data) = Some (Resolved (Some later))"
    with a rows show "getAccountBillings client dr tok =
        Some (Resolved (Some (concat (map (\<lambda>g. map (joinedRow g)
                                                  (matching g (attributesOf data))) gs)
                              @ later)))"
      by (subst getAccountBillings_step) (simp add: pagedStep_def)
  }
next
  show "length (map (joinedRow g) (matching g attrs))
      = length (filter (\<lambda>a. firstKey (fst g) = Value a) attrs)"
    by (simp add: matching_def)
next
  assume "Value a = Some i
    \<and> (Attributes a = None \<or> (\<exists>m. Attributes a = Some m \<and> m ''description'' = None))"
  then show "account (joinedRow g a) = i @ '' ()''"
    by (auto simp: joinedRow_def tmpl_def description_def)
qed

theorem one_row_per_matching_entry_witness:
  "repeatedAccounts (accountBillingsInput february None) = Resolved repeatedPage
   \<and> ResultsByTime repeatedPage =
       Some [\<lparr>Groups = Some (map groupOf [([''111111111111''], usd ''67.4724468979'')]),
              TotalAmortizedCost = None\<rparr>]
   \<and> length (filter (\<lambda>a. firstKey [''111111111111''] = Value a) (attributesOf repeatedPage)) = 2
   \<and> getAccountBillings repeatedAccounts february None =
       Some (Resolved (Some [\<lparr>unit = Some ''USD'', amount = Some ''67.4724468979'',
                                account = ''111111111111 (Example System 1A)''\<rparr>,
                              \<lparr>unit = Some ''USD'', amount = Some ''67.4724468979'',
                                account = ''111111111111 ()''\<rparr>]))
   \<and> twoPages (accountBillingsInput february None) = Resolved accountPage1
   \<and> truthy (NextPageToken accountPage1)
   \<and> getAccountBillings twoPages february None =
       Some (Resolved (Some [\<lparr>unit = Some ''USD'', amount = Some ''67.4724468979'',
                                account = ''111111111111 (Example System 1A)''\<rparr>,
                              \<lparr>unit = Some ''USD'', amount = Some ''6.8423283327'',
                                account = ''222222222222 (Example System 2A)''\<rparr>,
                              \<lparr>unit = Some ''USD'', amount = Some ''0.4724468979'',
                                account = ''444444444444 (Example System 4A)''\<rparr>]))
   \<and> Value \<lparr>Value = Some ''111111111111'', Attributes = None\<rparr> = Some ''111111111111''
   \<and> Attributes \<lparr>Value = Some ''111111111111'', Attributes = None\<rparr> = None
   \<and> account (joinedRow ([''111111111111''], usd ''67.4724468979'')
        \<lparr>Value = Some ''111111111111'', Attributes = None\<rparr>) = ''111111111111 ()''"
proof -
  let ?r = "\<lparr>Groups = Some (map groupOf [([''111111111111''], usd ''67.4724468979'')]),
            TotalAmortizedCost = None\<rparr>"
  let ?r1 = "\<lparr>Groups = Some (map groupOf [([''111111111111''], usd ''67.4724468979''),
                                          ([''222222222222''], usd ''6.8423283327'')]),
             TotalAmortizedCost = None\<rparr>"
  let ?later = "[\<lparr>unit = Some ''USD'', amount = Some ''0.4724468979'',
                  account = ''444444444444 (Example System 4A)''\<rparr>]"
  note ev = attributesOf_def matching_def joinedRow_def firstKey_def described_def usd_def
    tmpl_def description_def
  note t = one_row_per_matching_entry [where client = repeatedAccounts and dr = february
      and tok = None and data = repeatedPage and r = ?r
      and gs = "[([''111111111111''], usd ''67.4724468979'')]"
      and g = "([''111111111111''], usd ''67.4724468979'')"
      and attrs = "attributesOf repeatedPage"
      and a = "\<lparr>Value = Some ''111111111111'', Attributes = None\<rparr>"
      and i = "''111111111111''"]
  note u = one_row_per_matching_entry [where client = twoPages and dr = february
      and tok = None and data = accountPage1 and r = ?r1
      and gs = "[([''111111111111''], usd ''67.4724468979''),
                 ([''222222222222''], usd ''6.8423283327'')]"
      and later = ?later]
  have c: "repeatedAccounts (accountBillingsInput february None) = Resolved repeatedPage"
    by (simp add: repeatedAccounts_def accountBillingsInput_def)
  have h: "ResultsByTime repeatedPage = Some [?r]" "Groups ?r =
      Some (map groupOf [([''111111111111''], usd ''67.4724468979'')])"
    "\<not> truthy (NextPageToken repeatedPage)"
    by (simp_all add: repeatedPage_def truthy_def)
  have k: "length (filter (\<lambda>a. firstKey [''111111111111''] = Value a)
      (attributesOf repeatedPage)) = 2"
    by (simp add: attributesOf_def repeatedPage_def firstKey_def described_def)
  have 1: "getAccountBillings repeatedAccounts february None =
       Some (Resolved (Some [\<lparr>unit = Some ''USD'', amount = Some ''67.4724468979'',
                                account = ''111111111111 (Example System 1A)''\<rparr>,
                              \<lparr>unit = Some ''USD'', amount = Some ''67.4724468979'',
                                account = ''111111111111 ()''\<rparr>]))"
    using t [THEN conjunct1, THEN mp, OF conjI [OF c conjI [OF h(1,2)]], THEN conjunct1,
        THEN mp, OF h(3)]
    by (simp add: ev repeatedPage_def)
  have c1: "twoPages (accountBillingsInput february None) = Resolved accountPage1"
    by (simp add: twoPages_def accountBillingsInput_def)
  have h1: "ResultsByTime accountPage1 = Some [?r1]" "Groups ?r1 =
      Some (map groupOf [([''111111111111''], usd ''67.4724468979''),
                         ([''222222222222''], usd ''6.8423283327'')])"
    "truthy (NextPageToken accountPage1)"
    by (simp_all add: accountPage1_def truthy_def)
  have c2: "twoPages (accountBillingsInput february (NextPageToken accountPage1))
      = Resolved accountPage2"
    by (simp add: twoPages_def accountBillingsInput_def accountPage1_def)
  have n2: "\<not> truthy (NextPageToken accountPage2)"
    by (simp add: accountPage2_def truthy_def)
  have r2: "accountRows accountPage2 = Some ?later"
    by (simp add: accountRows_def accountPage2_def groupOf_def usd_def firstKey_def
        described_def tmpl_def description_def)
  from single_page_result [of "getAccountBillings twoPages february" twoPages
      "accountBillingsInput february" accountRows "NextPageToken accountPage1" accountPage2,
      OF getAccountBillings_step c2 n2] r2
  have l: "getAccountBillings twoPages february (NextPageToken accountPage1)
      = Some (Resolved (Some ?later))"
    by simp
  have 2: "getAccountBillings twoPages february None =
       Some (Resolved (Some [\<lparr>unit = Some ''USD'', amount = Some ''67.4724468979'',
                                account = ''111111111111 (Example System 1A)''\<rparr>,
                              \<lparr>unit = Some ''USD'', amount = Some ''6.8423283327'',
                                account = ''222222222222 (Example System 2A)''\<rparr>,
                              \<lparr>unit = Some ''USD'', amount = Some ''0.4724468979'',
                                account = ''444444444444 (Example System 4A)''\<rparr>]))"
    using u [THEN conjunct1, THEN mp, OF conjI [OF c1 conjI [OF h1(1,2)]], THEN conjunct2,
        THEN mp, OF conjI [OF h1(3) l]]
    by (simp add: ev accountPage1_def)
  have 3: "account (joinedRow ([''111111111111''], usd ''67.4724468979'')
        \<lparr>Value = Some ''111111111111'', Attributes = None\<rparr>) = ''111111111111 ()''"
    using t [THEN conjunct2, THEN conjunct2] by simp
  from c h(1) k 1 c1 h1(3) 2 3 show ?thesis by simp
qed

subsection \<open>The handler\<close>

lemma handler_validated:
  assumes "validated world event ty tok ch"
  shows "handler world event =
     (case getTotalBilling (ceClient world) (getDateRange (dateNow world)) of
        Rejected error \<Rightarrow> stepFailed ''fetch-total-billing''
      | Resolved totalBilling \<Rightarrow>
          (case fetchDetailBillings (ceClient world) (getDateRange (dateNow world)) ty of
             None \<Rightarrow> None
           | Some (Rejected error) \<Rightarrow> stepFailed ''fetch-detail-billings''
           | Some (Resolved f) \<Rightarrow>
               Some \<lparr>posted = fst (postSlackMessages (webClient world) tok ch
                        (getDateRange (dateNow world)) totalBilling f),
                     outcome =
                       (case snd (postSlackMessages (webClient world) tok ch
                           (getDateRange (dateNow world)) totalBilling f) of
                          Rejected error \<Rightarrow> Inl (StepFailed ''post-slack-messages'')
                        | Resolved u \<Rightarrow> Inr ''OK'')\<rparr>))"
proof -
  from assms obtain name secret where
    n: "SLACK_SECRET_NAME world = Some name" "name \<noteq> []" and
    t: "type event = Some ty" "ty \<in> set EventInputType" and
    s: "getSecretValue world name = Resolved (Some secret)"
       "token secret = Some tok" "tok \<noteq> []" "channel secret = Some ch" "ch \<noteq> []"
    by (auto simp: validated_def split: option.splits settled.splits)
  from t(2) have e: "ty \<noteq> []"
    by (auto simp: EventInputType_def)
  show ?thesis
  proof (cases "getTotalBilling (ceClient world) (getDateRange (dateNow world))")
    case (Rejected error)
    then show ?thesis
      by (simp add: handler_def n t s e truthy_def Let_def)
  next
    case (Resolved totalBilling)
    show ?thesis
    proof (cases "fetchDetailBillings (ceClient world) (getDateRange (dateNow world)) ty")
      case None
      with Resolved show ?thesis
        by (simp add: handler_def n t s e truthy_def Let_def)
    next
      case (Some d)
      with Resolved show ?thesis
        by (cases d)
           (simp_all add: handler_def n t s e truthy_def Let_def
              split: prod.splits settled.splits)
    qed
  qed
qed


lemma postSlackMessages_root_first:
  "\<exists>rest. fst (postSlackMessages web tok ch dr totalBilling f)
     = rootMessage ch dr totalBilling # rest"
  by (simp add: postSlackMessages_def split: settled.splits)

lemma example_range:
  "getDateRange \<lparr>getFullYear = 2023, getMonth = 1, getDate = 23\<rparr> = february"
  by (simp add: getDateRange_def newDate_in_range dateFormatString_iso isoDate_def pad2_def
      digitChar_def daysInMonth_def isLeapYear_def february_def)

lemma exampleWorld_validated:
  "ty \<in> set EventInputType \<Longrightarrow>
     validated (exampleWorld client web) \<lparr>type = Some ty\<rparr> ty
       ''xxxx-xxxxxxxxx-xxxx'' ''example-channel''"
  by (simp add: validated_def exampleWorld_def)

lemma exampleWorld_fields:
  "dateNow (exampleWorld client web) = \<lparr>getFullYear = 2023, getMonth = 1, getDate = 23\<rparr>"
  "ceClient (exampleWorld client web) = client"
  "webClient (exampleWorld client web) = web"
  by (simp_all add: exampleWorld_def)

lemma twoPages_detail:
  "fetchDetailBillings twoPages february ''services'' =
     Some (Resolved (Some [\<lparr>title = Some ''AWS CloudTrail'', content = ''0 USD''\<rparr>,
                            \<lparr>title = Some ''AWS Config'', content = ''0.012 USD''\<rparr>,
                            \<lparr>title = Some ''Tax'', content = ''1.39 USD''\<rparr>]))"
  using chain_result [OF getServiceBilling_step twoPages_service_chain]
  by (simp add: fetchDetailBillings_def serviceRow_def usd_def firstKey_def tmpl_def)

lemma totalPage_total:
  "client (totalBillingInput february) = Resolved totalPage \<Longrightarrow>
     getTotalBilling client february
       = Resolved (Some \<lparr>unit = Some ''USD'', amount = Some ''1.23456''\<rparr>)"
  by (simp add: getTotalBilling_def totalPage_def usd_def)

text \<open>
  Claim C5 does not hold of the code, in two ways. When the first page of the detail
  arrives with a token and the fetch of the second page rejects, the run ends with \<open>OK\<close>
  but the detail is the rows of the first page, posted as the breakdown, not absent: the
  defect of claim C2. And when the total call rejects with an error that
  \<^verbatim>\<open>JSON.stringify\<close> cannot serialize, the \<^verbatim>\<open>.catch\<close> handler throws in its
  log line, the step \<^verbatim>\<open>fetch-total-billing\<close> fails and the run fails, with nothing
  posted.
\<close>

theorem billing_failure_not_absorbed:
  "validated (exampleWorld secondPageFails postsOk) \<lparr>type = Some ''services''\<rparr> ''services''
     ''xxxx-xxxxxxxxx-xxxx'' ''example-channel''
   \<and> secondPageFails (serviceBillingInput february (Some ''XXXxx'')) = Rejected Serializable
   \<and> fetchDetailBillings secondPageFails february ''services'' =
       Some (Resolved (Some [\<lparr>title = Some ''AWS CloudTrail'', content = ''0 USD''\<rparr>,
                              \<lparr>title = Some ''AWS Config'', content = ''0.012 USD''\<rparr>]))
   \<and> handler (exampleWorld secondPageFails postsOk) \<lparr>type = Some ''services''\<rparr> =
       Some \<lparr>posted =
               [rootMessage ''example-channel'' february
                  (Some \<lparr>unit = Some ''USD'', amount = Some ''1.23456''\<rparr>),
                detailMessage ''example-channel'' (Some ''1677117722.000100'')
                  (Some [\<lparr>title = Some ''AWS CloudTrail'', content = ''0 USD''\<rparr>,
                         \<lparr>title = Some ''AWS Config'', content = ''0.012 USD''\<rparr>])],
             outcome = Inr ''OK''\<rparr>
   \<and> validated (exampleWorld unserializableTotal postsOk) \<lparr>type = Some ''services''\<rparr>
        ''services'' ''xxxx-xxxxxxxxx-xxxx'' ''example-channel''
   \<and> unserializableTotal (totalBillingInput february) = Rejected Unserializable
   \<and> getTotalBilling unserializableTotal february = Rejected Serializable
   \<and> handler (exampleWorld unserializableTotal postsOk) \<lparr>type = Some ''services''\<rparr> =
       Some \<lparr>posted = [], outcome = Inl (StepFailed ''fetch-total-billing'')\<rparr>"
proof -
  have v: "validated (exampleWorld client postsOk) \<lparr>type = Some ''services''\<rparr> ''services''
     ''xxxx-xxxxxxxxx-xxxx'' ''example-channel''" for client
    by (simp add: exampleWorld_validated EventInputType_def)
  have n: "secondPageFails (serviceBillingInput february (Some ''XXXxx'')) = Rejected Serializable"
    by (simp add: secondPageFails_def serviceBillingInput_def)
  have d: "fetchDetailBillings secondPageFails february ''services'' =
       Some (Resolved (Some [\<lparr>title = Some ''AWS CloudTrail'', content = ''0 USD''\<rparr>,
                              \<lparr>title = Some ''AWS Config'', content = ''0.012 USD''\<rparr>]))"
    by (simp add: fetchDetailBillings_def secondPageFails_services tmpl_def)
  have t: "getTotalBilling secondPageFails february
      = Resolved (Some \<lparr>unit = Some ''USD'', amount = Some ''1.23456''\<rparr>)"
    by (rule totalPage_total) (simp add: secondPageFails_def totalBillingInput_def)
  have 1: "handler (exampleWorld secondPageFails postsOk) \<lparr>type = Some ''services''\<rparr> =
       Some \<lparr>posted =
               [rootMessage ''example-channel'' february
                  (Some \<lparr>unit = Some ''USD'', amount = Some ''1.23456''\<rparr>),
                detailMessage ''example-channel'' (Some ''1677117722.000100'')
                  (Some [\<lparr>title = Some ''AWS CloudTrail'', content = ''0 USD''\<rparr>,
                         \<lparr>title = Some ''AWS Config'', content = ''0.012 USD''\<rparr>])],
             outcome = Inr ''OK''\<rparr>"
    by (simp add: handler_validated [OF v] exampleWorld_fields example_range t d
        postSlackMessages_def postsOk_def)
  have u: "unserializableTotal (totalBillingInput february) = Rejected Unserializable"
    by (simp add: unserializableTotal_def totalBillingInput_def)
  then have g: "getTotalBilling unserializableTotal february = Rejected Serializable"
    by (simp add: getTotalBilling_def catchHandler_def)
  have 2: "handler (exampleWorld unserializableTotal postsOk) \<lparr>type = Some ''services''\<rparr> =
       Some \<lparr>posted = [], outcome = Inl (StepFailed ''fetch-total-billing'')\<rparr>"
    by (simp add: handler_validated [OF v] exampleWorld_fields example_range g stepFailed_def)
  from v [of secondPageFails] n d 1 v [of unserializableTotal] u g 2 show ?thesis
    by (intro conjI)
qed

theorem billing_failure_not_absorbed_witness:
  "map_option outcome
     (handler (exampleWorld secondPageFails postsOk) \<lparr>type = Some ''services''\<rparr>)
     = Some (Inr ''OK'')
   \<and> map_option (\<lambda>run. length (posted run))
       (handler (exampleWorld secondPageFails postsOk) \<lparr>type = Some ''services''\<rparr>)
     = Some 2
   \<and> map_option outcome
       (handler (exampleWorld unserializableTotal postsOk) \<lparr>type = Some ''services''\<rparr>)
     = Some (Inl (StepFailed ''fetch-total-billing''))"
  using billing_failure_not_absorbed by simp




lemma handler_invalid_type:
  assumes "type event \<noteq> Some ''accounts''" "type event \<noteq> Some ''services''"
  shows "handler world event =
     (if \<not> truthy (SLACK_SECRET_NAME world)
      then thrown ''missing environment variable SLACK_SECRET_NAME.''
      else if \<not> truthy (type event) then thrown ''missing input variable type''
      else thrown ''invalid input variable Type. Valid values are accounts or services.'')"
  using assms
  by (cases "type event")
     (auto simp: handler_def truthy_def EventInputType_def split: option.splits)

lemma handler_valid_type:
  assumes "type event = Some ty" "ty \<in> set EventInputType"
  shows "handler world event \<noteq> thrown ''missing input variable type''
    \<and> handler world event
        \<noteq> thrown ''invalid input variable Type. Valid values are accounts or services.''"
proof -
  from assms(2) have e: "ty \<noteq> []"
    by (auto simp: EventInputType_def)
  note ev = handler_def truthy_def thrown_def stepFailed_def Let_def
  show ?thesis
  proof (cases "getTotalBilling (ceClient world) (getDateRange (dateNow world))")
    case (Rejected error)
    then show ?thesis
      using assms e by (simp add: ev split: option.splits settled.splits)
  next
    case (Resolved totalBilling)
    show ?thesis
    proof (cases "fetchDetailBillings (ceClient world) (getDateRange (dateNow world)) ty")
      case None
      with Resolved show ?thesis
        using assms e by (simp add: ev split: option.splits settled.splits)
    next
      case (Some d)
      with Resolved show ?thesis
        using assms e
        by (cases d) (simp_all add: ev split: option.splits settled.splits prod.splits)
    qed
  qed
qed

text \<open>
  Claim C7. A run whose event type is not exactly \<open>accounts\<close> or \<open>services\<close> (missing,
  empty or any other string) throws an error with a message, whatever the rest of the
  input; and with the secret name set, the handler throws one of its two errors about the
  type if and only if the type is not one of the two values.
\<close>

theorem fails_iff_type_invalid:
  "(type event \<noteq> Some ''accounts'' \<and> type event \<noteq> Some ''services'' \<longrightarrow>
      (\<exists>message. handler world event = Some \<lparr>posted = [], outcome = Inl (Error message)\<rparr>))
   \<and> (truthy (SLACK_SECRET_NAME world) \<longrightarrow>
        ((handler world event = thrown ''missing input variable type''
          \<or> handler world event
              = thrown ''invalid input variable Type. Valid values are accounts or services.'')
         \<longleftrightarrow> (type event \<noteq> Some ''accounts'' \<and> type event \<noteq> Some ''services'')))"
proof (intro conjI impI)
  assume "type event \<noteq> Some ''accounts'' \<and> type event \<noteq> Some ''services''"
  then show "\<exists>message. handler world event = Some \<lparr>posted = [], outcome = Inl (Error message)\<rparr>"
    by (simp add: handler_invalid_type thrown_def)
next
  assume s: "truthy (SLACK_SECRET_NAME world)"
  show "(handler world event = thrown ''missing input variable type''
          \<or> handler world event
              = thrown ''invalid input variable Type. Valid values are accounts or services.'')
         \<longleftrightarrow> (type event \<noteq> Some ''accounts'' \<and> type event \<noteq> Some ''services'')"
  proof (cases "type event \<noteq> Some ''accounts'' \<and> type event \<noteq> Some ''services''")
    case True
    with s show ?thesis
      by (simp add: handler_invalid_type)
  next
    case False
    then obtain ty where "type event = Some ty" "ty \<in> set EventInputType"
      by (auto simp: EventInputType_def)
    from handler_valid_type [OF this] False show ?thesis
      by blast
  qed
qed

theorem fails_iff_type_invalid_witness:
  "type \<lparr>type = Some ''Accounts''\<rparr> \<noteq> Some ''accounts''
   \<and> type \<lparr>type = Some ''Accounts''\<rparr> \<noteq> Some ''services''
   \<and> truthy (SLACK_SECRET_NAME (exampleWorld twoPages postsOk))
   \<and> handler (exampleWorld twoPages postsOk) \<lparr>type = Some ''Accounts''\<rparr>
       = thrown ''invalid input variable Type. Valid values are accounts or services.''
   \<and> handler (exampleWorld twoPages postsOk) \<lparr>type = Some []\<rparr>
       = thrown ''missing input variable type''
   \<and> handler (exampleWorld twoPages postsOk) \<lparr>type = Some ''services''\<rparr>
       \<noteq> thrown ''missing input variable type''
   \<and> handler (exampleWorld twoPages postsOk) \<lparr>type = Some ''services''\<rparr>
       \<noteq> thrown ''invalid input variable Type. Valid values are accounts or services.''"
proof -
  have s: "truthy (SLACK_SECRET_NAME (exampleWorld twoPages postsOk))"
    by (simp add: exampleWorld_def truthy_def)
  note a = fails_iff_type_invalid [of "\<lparr>type = Some ''Accounts''\<rparr>"
      "exampleWorld twoPages postsOk", THEN conjunct2, THEN mp, OF s]
  note e = fails_iff_type_invalid [of "\<lparr>type = Some []\<rparr>"
      "exampleWorld twoPages postsOk", THEN conjunct2, THEN mp, OF s]
  note v = fails_iff_type_invalid [of "\<lparr>type = Some ''services''\<rparr>"
      "exampleWorld twoPages postsOk", THEN conjunct2, THEN mp, OF s]
  have 1: "handler (exampleWorld twoPages postsOk) \<lparr>type = Some ''Accounts''\<rparr>
       = thrown ''invalid input variable Type. Valid values are accounts or services.''"
    using a by (simp add: handler_def exampleWorld_def truthy_def EventInputType_def)
  have 2: "handler (exampleWorld twoPages postsOk) \<lparr>type = Some []\<rparr>
       = thrown ''missing input variable type''"
    using e by (simp add: handler_def exampleWorld_def truthy_def)
  from v have 3: "handler (exampleWorld twoPages postsOk) \<lparr>type = Some ''services''\<rparr>
       \<noteq> thrown ''missing input variable type''
   \<and> handler (exampleWorld twoPages postsOk) \<lparr>type = Some ''services''\<rparr>
       \<noteq> thrown ''invalid input variable Type. Valid values are accounts or services.''"
    by simp
  from s 1 2 3 show ?thesis by simp
qed

text \<open>
  Claim C8. A run with no secret name (unset or empty) throws an error with a message; a
  run that passes the checks of name and type and whose secret lacks the token or the
  channel throws an error whose message names both \<open>token\<close> and \<open>channel\<close>. Neither run
  returns \<open>OK\<close>, and neither posts to Slack.
\<close>

theorem missing_configuration_fails:
  "(\<not> truthy (SLACK_SECRET_NAME world) \<longrightarrow>
      handler world event =
        Some \<lparr>posted = [],
              outcome = Inl (Error ''missing environment variable SLACK_SECRET_NAME.'')\<rparr>)
   \<and> (SLACK_SECRET_NAME world = Some name \<and> name \<noteq> []
       \<and> (type event = Some ''accounts'' \<or> type event = Some ''services'')
       \<and> getSecretValue world name = Resolved secret
       \<and> (\<not> truthy (Option.bind secret token) \<or> \<not> truthy (Option.bind secret channel)) \<longrightarrow>
        handler world event =
          Some \<lparr>posted = [],
                outcome = Inl (Error (''Slack secret must contain '' @ ''token'' @ '' and ''
                                       @ ''channel'' @ ''.''))\<rparr>)"
  by (auto simp: handler_def truthy_def thrown_def EventInputType_def split: option.splits)

theorem missing_configuration_fails_witness:
  "\<not> truthy (SLACK_SECRET_NAME ((exampleWorld twoPages postsOk)\<lparr>SLACK_SECRET_NAME := None\<rparr>))
   \<and> handler ((exampleWorld twoPages postsOk)\<lparr>SLACK_SECRET_NAME := None\<rparr>)
        \<lparr>type = Some ''services''\<rparr> =
       Some \<lparr>posted = [],
             outcome = Inl (Error ''missing environment variable SLACK_SECRET_NAME.'')\<rparr>
   \<and> \<not> truthy (Option.bind (Some \<lparr>token = None, channel = Some ''example-channel''\<rparr>) token)
   \<and> handler ((exampleWorld twoPages postsOk)
         \<lparr>getSecretValue :=
            \<lambda>name. Resolved (Some \<lparr>token = None, channel = Some ''example-channel''\<rparr>)\<rparr>)
        \<lparr>type = Some ''services''\<rparr> =
       Some \<lparr>posted = [],
             outcome = Inl (Error ''Slack secret must contain token and channel.'')\<rparr>
   \<and> \<not> truthy (Option.bind (Some \<lparr>token = Some ''xxxx-xxxxxxxxx-xxxx'', channel = None\<rparr>) channel)
   \<and> handler ((exampleWorld twoPages postsOk)
         \<lparr>getSecretValue :=
            \<lambda>name. Resolved (Some \<lparr>token = Some ''xxxx-xxxxxxxxx-xxxx'', channel = None\<rparr>)\<rparr>)
        \<lparr>type = Some ''accounts''\<rparr> =
       Some \<lparr>posted = [],
             outcome = Inl (Error ''Slack secret must contain token and channel.'')\<rparr>"
  using missing_configuration_fails [where world = "(exampleWorld twoPages postsOk)\<lparr>SLACK_SECRET_NAME := None\<rparr>"
      and event = "\<lparr>type = Some ''services''\<rparr>", THEN conjunct1]
    missing_configuration_fails [where world = "(exampleWorld twoPages postsOk)
         \<lparr>getSecretValue :=
            \<lambda>name. Resolved (Some \<lparr>token = None, channel = Some ''example-channel''\<rparr>)\<rparr>"
      and name = "''example/slack/webhook''" and event = "\<lparr>type = Some ''services''\<rparr>"
      and secret = "Some \<lparr>token = None, channel = Some ''example-channel''\<rparr>", THEN conjunct2]
    missing_configuration_fails [where world = "(exampleWorld twoPages postsOk)
         \<lparr>getSecretValue :=
            \<lambda>name. Resolved (Some \<lparr>token = Some ''xxxx-xxxxxxxxx-xxxx'', channel = None\<rparr>)\<rparr>"
      and name = "''example/slack/webhook''" and event = "\<lparr>type = Some ''accounts''\<rparr>"
      and secret = "Some \<lparr>token = Some ''xxxx-xxxxxxxxx-xxxx'', channel = None\<rparr>", THEN conjunct2]
  by (simp add: exampleWorld_def truthy_def)

lemma pushMatching_amounts:
  "pushMatching item attrs acc = Some rows \<Longrightarrow>
     \<forall>row\<in>set rows. row \<in> set acc
        \<or> (\<exists>c. AmortizedCost item = Some c \<and> amount row = Amount c \<and> unit row = Unit c)"
proof (induction attrs arbitrary: acc)
  case Nil
  then show ?case by simp
next
  case (Cons attr attrs)
  from Cons.prems obtain ks where ks: "Keys item = Some ks"
    by (auto split: option.splits)
  show ?case
  proof (cases "firstKey ks = Value attr")
    case True
    with Cons.prems ks obtain c where
      c: "AmortizedCost item = Some c" and
      r: "pushMatching item attrs
            (acc @ [\<lparr>unit = Unit c, amount = Amount c,
                      account = tmpl (Value attr) @ '' ('' @ description attr @ '')''\<rparr>]) = Some rows"
      by (auto split: option.splits)
    from Cons.IH [OF r] c show ?thesis by auto
  next
    case False
    with Cons.prems ks have "pushMatching item attrs acc = Some rows" by simp
    from Cons.IH [OF this] show ?thesis .
  qed
qed

lemma pushAccountBillings_amounts:
  "pushAccountBillings groups attrs acc = Some rows \<Longrightarrow>
     \<forall>row\<in>set rows. row \<in> set acc
        \<or> (\<exists>item\<in>set groups. \<exists>c. AmortizedCost item = Some c \<and> amount row = Amount c
              \<and> unit row = Unit c)"
proof (induction groups arbitrary: acc)
  case Nil
  then show ?case by simp
next
  case (Cons item items)
  from Cons.prems obtain mid where
    m: "pushMatching item attrs acc = Some mid" and
    r: "pushAccountBillings items attrs mid = Some rows"
    by (auto split: option.splits)
  from pushMatching_amounts [OF m] Cons.IH [OF r] show ?case
    by (simp add: Ball_def) blast
qed

lemma accountRows_amounts:
  assumes "accountRows page = Some rows"
  shows "\<exists>b groups. ResultsByTime page = Some [b] \<and> Groups b = Some groups
     \<and> (\<forall>row\<in>set rows. \<exists>item\<in>set groups. \<exists>c. AmortizedCost item = Some c
           \<and> amount row = Amount c \<and> unit row = Unit c)"
proof -
  from assms obtain b groups where
    b: "ResultsByTime page = Some [b]" "Groups b = Some groups" and
    p: "pushAccountBillings groups (attributesOf page) [] = Some rows"
    by (auto simp: accountRows_def attributesOf_def split: option.splits list.splits)
  from pushAccountBillings_amounts [OF p] b show ?thesis by auto
qed

lemma getTotalBilling_resolved:
  assumes "client (totalBillingInput dr) = Resolved data" "ResultsByTime data = Some [r]"
    "TotalAmortizedCost r = Some cost"
  shows "getTotalBilling client dr = Resolved (Some \<lparr>unit = Unit cost, amount = Amount cost\<rparr>)"
  using assms by (simp add: getTotalBilling_def)

text \<open>
  Claim C9. The amount and the unit of the total are the strings of the response, and the
  attachment of the root message shows them as \<open>amount unit\<close>, unchanged; the root
  message, with the total the fetch resolved with, is the first message a validated run
  posts; the amount of every row by service and by account is the amount string of a group
  of the page.
\<close>

theorem amounts_pass_through:
  "(client (totalBillingInput dr) = Resolved data \<and> ResultsByTime data = Some [r]
      \<and> TotalAmortizedCost r = Some \<lparr>Amount = Some a, Unit = Some u\<rparr> \<longrightarrow>
        getTotalBilling client dr = Resolved (Some \<lparr>unit = Some u, amount = Some a\<rparr>)
        \<and> map attachmentText
             (attachments (rootMessage ch dr (Some \<lparr>unit = Some u, amount = Some a\<rparr>)))
            = [Some (a @ '' '' @ u)])
   \<and> (validated world event ty tok ch
       \<and> getTotalBilling (ceClient world) (getDateRange (dateNow world)) = Resolved totalBilling
       \<and> fetchDetailBillings (ceClient world) (getDateRange (dateNow world)) ty
           = Some (Resolved detail) \<longrightarrow>
        (\<exists>run rest. handler world event = Some run
           \<and> posted run = rootMessage ch (getDateRange (dateNow world)) totalBilling # rest))
   \<and> (serviceRows page = Some srows \<longrightarrow>
        (\<exists>b gs. ResultsByTime page = Some [b] \<and> Groups b = Some (map groupOf gs)
           \<and> map amount srows = map (\<lambda>g. Amount (snd g)) gs))
   \<and> (accountRows page = Some arows \<longrightarrow>
        (\<exists>b groups. ResultsByTime page = Some [b] \<and> Groups b = Some groups
           \<and> (\<forall>row\<in>set arows. \<exists>item\<in>set groups. \<exists>c. AmortizedCost item = Some c
                 \<and> amount row = Amount c)))"
proof (intro conjI impI)
  assume a: "client (totalBillingInput dr) = Resolved data \<and> ResultsByTime data = Some [r]
      \<and> TotalAmortizedCost r = Some \<lparr>Amount = Some a, Unit = Some u\<rparr>"
  then show "getTotalBilling client dr = Resolved (Some \<lparr>unit = Some u, amount = Some a\<rparr>)"
    using getTotalBilling_resolved [of client dr data r "\<lparr>Amount = Some a, Unit = Some u\<rparr>"]
    by simp
  show "map attachmentText
      (attachments (rootMessage ch dr (Some \<lparr>unit = Some u, amount = Some a\<rparr>)))
      = [Some (a @ '' '' @ u)]"
    by (simp add: rootMessage_def tmpl_def)
next
  assume "validated world event ty tok ch
       \<and> getTotalBilling (ceClient world) (getDateRange (dateNow world)) = Resolved totalBilling
       \<and> fetchDetailBillings (ceClient world) (getDateRange (dateNow world)) ty
           = Some (Resolved detail)"
  then have v: "validated world event ty tok ch" and
    t: "getTotalBilling (ceClient world) (getDateRange (dateNow world)) = Resolved totalBilling" and
    d: "fetchDetailBillings (ceClient world) (getDateRange (dateNow world)) ty
        = Some (Resolved detail)"
    by simp_all
  from postSlackMessages_root_first [of "webClient world" tok ch "getDateRange (dateNow world)"
      totalBilling detail]
  obtain rest where "fst (postSlackMessages (webClient world) tok ch (getDateRange (dateNow world))
      totalBilling detail)
    = rootMessage ch (getDateRange (dateNow world)) totalBilling # rest"
    by (elim exE)
  with handler_validated [OF v] t d
  show "\<exists>run rest. handler world event = Some run
           \<and> posted run = rootMessage ch (getDateRange (dateNow world)) totalBilling # rest"
    by simp
next
  assume "serviceRows page = Some srows"
  then obtain b gs where "ResultsByTime page = Some [b]" "Groups b = Some (map groupOf gs)"
    "srows = map serviceRow gs"
    using serviceRows_iff [of page srows] by blast
  then have "ResultsByTime page = Some [b] \<and> Groups b = Some (map groupOf gs)
           \<and> map amount srows = map (\<lambda>g. Amount (snd g)) gs"
    by (simp add: serviceRow_def)
  then show "\<exists>b gs. ResultsByTime page = Some [b] \<and> Groups b = Some (map groupOf gs)
           \<and> map amount srows = map (\<lambda>g. Amount (snd g)) gs"
    by (intro exI)
next
  assume "accountRows page = Some arows"
  from accountRows_amounts [OF this]
  show "\<exists>b groups. ResultsByTime page = Some [b] \<and> Groups b = Some groups
           \<and> (\<forall>row\<in>set arows. \<exists>item\<in>set groups. \<exists>c. AmortizedCost item = Some c
                 \<and> amount row = Amount c)"
    by blast
qed

theorem amounts_pass_through_witness:
  "twoPages (totalBillingInput february) = Resolved totalPage
   \<and> ResultsByTime totalPage
       = Some [\<lparr>Groups = Some [], TotalAmortizedCost = Some \<lparr>Amount = Some ''1.23456'',
                                                               Unit = Some ''USD''\<rparr>\<rparr>]
   \<and> getTotalBilling twoPages february
       = Resolved (Some \<lparr>unit = Some ''USD'', amount = Some ''1.23456''\<rparr>)
   \<and> map attachmentText
        (attachments (rootMessage ''example-channel'' february
           (Some \<lparr>unit = Some ''USD'', amount = Some ''1.23456''\<rparr>)))
       = [Some ''1.23456 USD'']
   \<and> postText (rootMessage ''example-channel'' february
        (Some \<lparr>unit = Some ''USD'', amount = Some ''1.23456''\<rparr>))
       = Some ''AWS Cost Reports (2023-02-01 - 2023-02-22)''
   \<and> validated (exampleWorld twoPages postsOk) \<lparr>type = Some ''services''\<rparr> ''services''
        ''xxxx-xxxxxxxxx-xxxx'' ''example-channel''
   \<and> fetchDetailBillings twoPages february ''services'' =
       Some (Resolved (Some [\<lparr>title = Some ''AWS CloudTrail'', content = ''0 USD''\<rparr>,
                              \<lparr>title = Some ''AWS Config'', content = ''0.012 USD''\<rparr>,
                              \<lparr>title = Some ''Tax'', content = ''1.39 USD''\<rparr>]))
   \<and> map_option (\<lambda>run. hd (posted run))
        (handler (exampleWorld twoPages postsOk) \<lparr>type = Some ''services''\<rparr>)
       = Some (rootMessage ''example-channel'' february
                 (Some \<lparr>unit = Some ''USD'', amount = Some ''1.23456''\<rparr>))
   \<and> serviceRows servicePage1 =
       Some [\<lparr>unit = Some ''USD'', amount = Some ''0'', service = Some ''AWS CloudTrail''\<rparr>,
             \<lparr>unit = Some ''USD'', amount = Some ''0.012'', service = Some ''AWS Config''\<rparr>]
   \<and> accountRows accountPage2 =
       Some [\<lparr>unit = Some ''USD'', amount = Some ''0.4724468979'',
               account = ''444444444444 (Example System 4A)''\<rparr>]"
proof -
  let ?detail = "Some [\<lparr>title = Some ''AWS CloudTrail'', content = ''0 USD''\<rparr>,
                      \<lparr>title = Some ''AWS Config'', content = ''0.012 USD''\<rparr>,
                      \<lparr>title = Some ''Tax'', content = ''1.39 USD''\<rparr>]"
  let ?total = "Some \<lparr>unit = Some ''USD'', amount = Some ''1.23456''\<rparr>"
  let ?b = "\<lparr>Groups = Some [], TotalAmortizedCost = Some \<lparr>Amount = Some ''1.23456'',
                                                            Unit = Some ''USD''\<rparr>\<rparr>"
  note t = amounts_pass_through [where client = twoPages and dr = february and data = totalPage
      and r = ?b and a = "''1.23456''" and u = "''USD''" and ch = "''example-channel''"
      and world = "exampleWorld twoPages postsOk" and event = "\<lparr>type = Some ''services''\<rparr>"
      and ty = "''services''" and tok = "''xxxx-xxxxxxxxx-xxxx''" and detail = ?detail
      and totalBilling = ?total and page = servicePage1]
  have c: "twoPages (totalBillingInput february) = Resolved totalPage"
    by (simp add: twoPages_def totalBillingInput_def)
  have b: "ResultsByTime totalPage = Some [?b]"
    by (simp add: totalPage_def usd_def)
  have k: "TotalAmortizedCost ?b = Some \<lparr>Amount = Some ''1.23456'', Unit = Some ''USD''\<rparr>"
    by simp
  note 1 = t [THEN conjunct1, THEN mp, OF conjI [OF c conjI [OF b k]]]
  have x: "postText (rootMessage ''example-channel'' february ?total)
       = Some ''AWS Cost Reports (2023-02-01 - 2023-02-22)''"
    by (simp add: rootMessage_def february_def)
  have v: "validated (exampleWorld twoPages postsOk) \<lparr>type = Some ''services''\<rparr> ''services''
     ''xxxx-xxxxxxxxx-xxxx'' ''example-channel''"
    by (simp add: exampleWorld_validated EventInputType_def)
  note w = exampleWorld_fields
  note d = twoPages_detail
  from t [THEN conjunct2, THEN conjunct1] v d 1 [THEN conjunct1]
  have 2: "map_option (\<lambda>run. hd (posted run))
        (handler (exampleWorld twoPages postsOk) \<lparr>type = Some ''services''\<rparr>)
       = Some (rootMessage ''example-channel'' february ?total)"
    by (auto simp: w example_range)
  have 3: "serviceRows servicePage1 =
       Some [\<lparr>unit = Some ''USD'', amount = Some ''0'', service = Some ''AWS CloudTrail''\<rparr>,
             \<lparr>unit = Some ''USD'', amount = Some ''0.012'', service = Some ''AWS Config''\<rparr>]"
    by (simp add: serviceRows_def servicePage1_def groupOf_def usd_def firstKey_def)
  have 4: "accountRows accountPage2 =
       Some [\<lparr>unit = Some ''USD'', amount = Some ''0.4724468979'',
               account = ''444444444444 (Example System 4A)''\<rparr>]"
    by (simp add: accountRows_def accountPage2_def groupOf_def usd_def firstKey_def
        described_def tmpl_def description_def)
  from c b 1 [THEN conjunct1] 1 [THEN conjunct2] x v d 2 3 4 show ?thesis
    by (intro conjI) simp_all
qed

end
